theory Spec2Isabelle
  imports Complex_Main
begin

section \<open>Python values\<close>

text \<open>
  The client decodes JSON bodies with \<^verbatim>\<open>response.json()\<close> and reads them with
  \<^verbatim>\<open>dict.get\<close>, subscripts, iteration and truth tests. Python checks no types there, so a
  decoded field holds whatever JSON value the body carried; the model keeps the values
  untyped in the same way. A \<^verbatim>\<open>dict\<close> is an association list read by \<open>map_of\<close>; \<^verbatim>\<open>None\<close> is
  \<open>JNull\<close>. Floats are only carried around and compared with zero, never computed with.
  Strings are lists of characters with code points below 256, where the class \<^verbatim>\<open>\d\<close> of
  the \<^verbatim>\<open>re\<close> module is exactly the ten ASCII digits.
\<close>

datatype json =
    JNull
  | JBool bool
  | JInt int
  | JFloat real
  | JStr string
  | JList "json list"
  | JDict "(string \<times> json) list"

datatype py_exc =
    KeyError
  | AttributeError
  | TypeError
  | ValueError
  | JSONDecodeError string
  | RequestException string

text \<open>
  \<^verbatim>\<open>requests.exceptions.JSONDecodeError\<close> (what \<^verbatim>\<open>response.json()\<close> raises on a malformed
  body, in requests 2.27 and later) inherits from both \<^verbatim>\<open>RequestException\<close> and
  \<^verbatim>\<open>ValueError\<close>.
\<close>

fun isinstance_ValueError :: "py_exc \<Rightarrow> bool" where
  "isinstance_ValueError ValueError = True"
| "isinstance_ValueError (JSONDecodeError _) = True"
| "isinstance_ValueError _ = False"

fun isinstance_RequestException :: "py_exc \<Rightarrow> bool" where
  "isinstance_RequestException (RequestException _) = True"
| "isinstance_RequestException (JSONDecodeError _) = True"
| "isinstance_RequestException _ = False"

text \<open>
  \<^verbatim>\<open>str(e)\<close>. The flows call it only on a \<^verbatim>\<open>RequestException\<close>, whose text is the message
  it was raised with; the other equations only make the function total.
\<close>

fun str_exc :: "py_exc \<Rightarrow> string" where
  "str_exc (RequestException m) = m"
| "str_exc (JSONDecodeError m) = m"
| "str_exc KeyError = ''KeyError''"
| "str_exc AttributeError = ''AttributeError''"
| "str_exc TypeError = ''TypeError''"
| "str_exc ValueError = ''ValueError''"

text \<open>The three ways a call can end: a value, an exception that escapes, \<^verbatim>\<open>sys.exit\<close>.\<close>

datatype 'a outcome = Return 'a | Raise py_exc | Exit int

text \<open>Truth value of a JSON value in \<^verbatim>\<open>if v:\<close>.\<close>

fun truthy :: "json \<Rightarrow> bool" where
  "truthy JNull = False"
| "truthy (JBool b) = b"
| "truthy (JInt i) = (i \<noteq> 0)"
| "truthy (JFloat r) = (r \<noteq> 0)"
| "truthy (JStr s) = (s \<noteq> [])"
| "truthy (JList xs) = (xs \<noteq> [])"
| "truthy (JDict kvs) = (kvs \<noteq> [])"

text \<open>\<^verbatim>\<open>v.get(k, d)\<close>: only a dict has the method.\<close>

fun py_get :: "json \<Rightarrow> string \<Rightarrow> json \<Rightarrow> py_exc + json" where
  "py_get (JDict kvs) k d = Inr (case map_of kvs k of None \<Rightarrow> d | Some v \<Rightarrow> v)"
| "py_get _ k d = Inl AttributeError"

text \<open>The value \<^verbatim>\<open>get\<close> finds in a dict, as a function of its association list.\<close>

definition dict_get :: "(string \<times> json) list \<Rightarrow> string \<Rightarrow> json \<Rightarrow> json" where
  "dict_get kvs k d = (case map_of kvs k of None \<Rightarrow> d | Some v \<Rightarrow> v)"

text \<open>\<^verbatim>\<open>v[k]\<close> with a string key.\<close>

fun py_subscript :: "json \<Rightarrow> string \<Rightarrow> py_exc + json" where
  "py_subscript (JDict kvs) k = (case map_of kvs k of None \<Rightarrow> Inl KeyError | Some v \<Rightarrow> Inr v)"
| "py_subscript _ k = Inl TypeError"

text \<open>
  \<^verbatim>\<open>for x in v\<close>: a list yields its elements, a dict its keys, a string its characters;
  nothing else is iterable.
\<close>

fun py_iter :: "json \<Rightarrow> py_exc + json list" where
  "py_iter (JList xs) = Inr xs"
| "py_iter (JDict kvs) = Inr (map (\<lambda>kv. JStr (fst kv)) kvs)"
| "py_iter (JStr s) = Inr (map (\<lambda>c. JStr [c]) s)"
| "py_iter _ = Inl TypeError"

text \<open>A comprehension or loop body that may raise: the first exception ends it.\<close>

fun map_exc :: "('a \<Rightarrow> py_exc + 'b) \<Rightarrow> 'a list \<Rightarrow> py_exc + 'b list" where
  "map_exc f [] = Inr []"
| "map_exc f (x # xs) =
     (case f x of
        Inl e \<Rightarrow> Inl e
      | Inr y \<Rightarrow> (case map_exc f xs of Inl e \<Rightarrow> Inl e | Inr ys \<Rightarrow> Inr (y # ys)))"

section \<open>The fragment of \<^verbatim>\<open>re\<close> used by the normalizer\<close>

text \<open>
  Character classes: \<^verbatim>\<open>.\<close> (anything but a newline, no DOTALL flag), \<^verbatim>\<open>\d\<close>, a literal, a
  bracket set.
\<close>

datatype cclass = AnyChar | Digit | Lit char | OneOf "char list"

fun cmatch :: "cclass \<Rightarrow> char \<Rightarrow> bool" where
  "cmatch AnyChar c = (c \<noteq> CHR 0x0A)"
| "cmatch Digit c = (c \<in> set ''0123456789'')"
| "cmatch (Lit a) c = (c = a)"
| "cmatch (OneOf cs) c = (c \<in> set cs)"

text \<open>An atom is one character of a class, or a greedy \<^verbatim>\<open>+\<close> over a class.\<close>

datatype atom = One cclass | Plus cclass

text \<open>\<open>first_from n f\<close> tries \<open>f n\<close>, \<open>f (n - 1)\<close>, ..., \<open>f 1\<close> and keeps the first success.\<close>

fun first_from :: "nat \<Rightarrow> (nat \<Rightarrow> 'a option) \<Rightarrow> 'a option" where
  "first_from 0 f = None"
| "first_from (Suc n) f = (case f (Suc n) of Some r \<Rightarrow> Some r | None \<Rightarrow> first_from n f)"

text \<open>
  Backtracking match of a sequence of atoms anchored at both ends (\<^verbatim>\<open>re.match\<close> anchors the
  start, the pattern ends in \<^verbatim>\<open>$\<close>). A greedy \<^verbatim>\<open>+\<close> first takes the longest run and gives
  characters back one at a time; \<^verbatim>\<open>$\<close> holds at the end of the string and just before a
  final newline. The result lists what each atom consumed.
\<close>

fun run_atoms :: "atom list \<Rightarrow> string \<Rightarrow> string list option" where
  "run_atoms [] s = (if s = [] \<or> s = [CHR 0x0A] then Some [] else None)"
| "run_atoms (One c # as) s =
     (case s of
        [] \<Rightarrow> None
      | x # xs \<Rightarrow> if cmatch c x then map_option ((#) [x]) (run_atoms as xs) else None)"
| "run_atoms (Plus c # as) s =
     first_from (length (takeWhile (cmatch c) s))
       (\<lambda>n. map_option ((#) (take n s)) (run_atoms as (drop n s)))"

text \<open>Capture groups: the pattern is a list of groups, each a list of atoms.\<close>

fun regroup :: "nat list \<Rightarrow> string list \<Rightarrow> string list" where
  "regroup [] ps = []"
| "regroup (n # ns) ps = concat (take n ps) # regroup ns (drop n ps)"

definition re_match_groups :: "atom list list \<Rightarrow> string \<Rightarrow> string list option" where
  "re_match_groups gs s = map_option (regroup (map length gs)) (run_atoms (concat gs) s)"

text \<open>The pattern \<^verbatim>\<open>^(.+\.\d+)([+-].+)$\<close>.\<close>

definition frac_tz_pattern :: "atom list list" where
  "frac_tz_pattern =
     [[Plus AnyChar, One (Lit (CHR ''.'')), Plus Digit],
      [One (OneOf ''+-''), Plus AnyChar]]"

section \<open>String methods\<close>

definition endswith :: "string \<Rightarrow> string \<Rightarrow> bool" where
  "endswith s suf = (length suf \<le> length s \<and> drop (length s - length suf) s = suf)"

text \<open>\<^verbatim>\<open>s.rsplit(sep, 1)\<close>: split once at the last separator, or the whole string alone.\<close>

definition rsplit1 :: "char \<Rightarrow> string \<Rightarrow> string list" where
  "rsplit1 sep s =
     (if sep \<in> set s
      then [rev (drop 1 (dropWhile (\<lambda>c. c \<noteq> sep) (rev s))), rev (takeWhile (\<lambda>c. c \<noteq> sep) (rev s))]
      else [s])"

text \<open>\<^verbatim>\<open>s.ljust(n, c)\<close>.\<close>

definition ljust :: "nat \<Rightarrow> char \<Rightarrow> string \<Rightarrow> string" where
  "ljust n c s = s @ replicate (n - length s) c"

section \<open>The timestamp normalizer\<close>

text \<open>
  \<open>normalized_date_string\<close> is the value of \<^verbatim>\<open>date_string\<close> when \<^verbatim>\<open>parse_iso_datetime\<close>
  reaches its last line, the argument of \<^verbatim>\<open>datetime.fromisoformat\<close>. Unpacking the result of
  \<^verbatim>\<open>rsplit\<close> into two names raises \<^verbatim>\<open>ValueError\<close> when it has one element.
\<close>

definition replace_Z :: "string \<Rightarrow> string" where
  "replace_Z s = (if endswith s ''Z'' then butlast s @ ''+00:00'' else s)"

definition normalized_date_string :: "string \<Rightarrow> py_exc + string" where
  "normalized_date_string date_string =
     (let s1 = replace_Z date_string in
      case re_match_groups frac_tz_pattern s1 of
        Some [dt_part, tz_part] \<Rightarrow>
          (case rsplit1 (CHR ''.'') dt_part of
             [base_s, frac_s] \<Rightarrow> Inr (base_s @ ''.'' @ ljust 6 (CHR ''0'') (take 6 frac_s) @ tz_part)
           | _ \<Rightarrow> Inl ValueError)
      | _ \<Rightarrow> Inr s1)"

text \<open>
  \<^verbatim>\<open>datetime.fromisoformat\<close> belongs to the standard library: it is a parameter, \<open>None\<close> for
  its \<^verbatim>\<open>ValueError\<close>. A value that is not a string has no \<^verbatim>\<open>endswith\<close>.
\<close>

fun parse_iso_datetime :: "(string \<Rightarrow> 'dt option) \<Rightarrow> json \<Rightarrow> py_exc + 'dt" where
  "parse_iso_datetime fromisoformat (JStr date_string) =
     (case normalized_date_string date_string of
        Inl e \<Rightarrow> Inl e
      | Inr s \<Rightarrow> (case fromisoformat s of None \<Rightarrow> Inl ValueError | Some d \<Rightarrow> Inr d))"
| "parse_iso_datetime fromisoformat _ = Inl AttributeError"

section \<open>The response types\<close>

text \<open>
  The dataclasses of \<^verbatim>\<open>submission_dtos.py\<close>. A dataclass checks no types, so each field read with
  \<^verbatim>\<open>get\<close> is an untyped JSON value; the two timestamps of a chat are results of the parser.
\<close>

record 'dt SubmissionChat =
  participant_count :: json
  chat_count :: json
  chat_length :: json
  chat_start_on :: 'dt
  chat_ended_on :: 'dt

record 'dt ChatHistory =
  source_chat_id :: json
  chat_list :: "'dt SubmissionChat list"

record 'dt SubmissionHistory =
  is_valid :: json
  error_text :: json
  last_submission :: "'dt option"
  chat_histories :: "'dt ChatHistory list"

record SubmitDataResponse =
  is_valid :: json
  error_text :: json

record ChatEvaluationSummary =
  source_chat_id :: json
  message_count :: json
  chat_quality :: json
  chat_uniqueness :: json

record EvaluationDetails =
  total_messages :: json
  unique_messages :: json
  llm_reasoning :: json
  chat_summaries :: "ChatEvaluationSummary list"

record EvaluateSubmissionResponse =
  is_valid :: json
  error_text :: json
  quality :: json
  uniqueness :: json
  score :: json
  details :: "EvaluationDetails option"

section \<open>The HTTP exchange\<close>

text \<open>
  The URL (\<^verbatim>\<open>get_validation_api_url\<close>) and, for two of the flows, the payload
  (\<^verbatim>\<open>to_submission_json\<close>) come from modules outside these sources and are computed before
  the request is sent; each flow is modelled from the outcome of its \<^verbatim>\<open>requests.post\<close> on.
  What \<^verbatim>\<open>requests.post\<close> gives back: an exception, or a response with its status code, its
  text and what \<^verbatim>\<open>response.json()\<close> will make of the body (the message of the
  \<^verbatim>\<open>JSONDecodeError\<close> when the body is not JSON).
\<close>

record http_response =
  status_code :: int
  response_text :: string
  json_result :: "string + json"

definition response_json :: "http_response \<Rightarrow> py_exc + json" where
  "response_json response =
     (case json_result response of Inl m \<Rightarrow> Inl (JSONDecodeError m) | Inr j \<Rightarrow> Inr j)"

text \<open>Sequencing of steps that may raise.\<close>

definition and_then :: "py_exc + 'a \<Rightarrow> ('a \<Rightarrow> py_exc + 'b) \<Rightarrow> py_exc + 'b" where
  "and_then x f = (case x of Inl e \<Rightarrow> Inl e | Inr v \<Rightarrow> f v)"

text \<open>
  A call of \<^verbatim>\<open>logging.error\<close>: its message (an f-string is kept as written, with its
  braces) and the values that enter it. The log of a flow is the list of these calls in
  order. What \<^verbatim>\<open>print\<close> and \<^verbatim>\<open>traceback.print_exc\<close> write to the console is not part of
  the log.
\<close>

datatype log_arg = ArgExc py_exc | ArgInt int | ArgStr string

datatype log_call = LogError string "log_arg list"

text \<open>\<^verbatim>\<open>str(n)\<close> of an integer, for the f-string of the status code.\<close>

fun str_nat :: "nat \<Rightarrow> string" where
  "str_nat n =
     (if n < 10 then [char_of (48 + n)] else str_nat (n div 10) @ [char_of (48 + n mod 10)])"

declare str_nat.simps [simp del]

definition str_int :: "int \<Rightarrow> string" where
  "str_int i = (if i < 0 then CHR ''-'' # str_nat (nat (- i)) else str_nat (nat i))"

section \<open>Historical data: \<^verbatim>\<open>get_submission_historical_data\<close>\<close>

text \<open>
  The keyword arguments of \<^verbatim>\<open>SubmissionChat(...)\<close> are evaluated in the order written: three
  \<^verbatim>\<open>get\<close> with a default, then the two subscripts, each handed to the parser at once.
\<close>

definition submission_chat :: "(string \<Rightarrow> 'dt option) \<Rightarrow> json \<Rightarrow> py_exc + 'dt SubmissionChat" where
  "submission_chat fromisoformat chat =
     and_then (py_get chat ''participantCount'' (JInt 0)) (\<lambda>pc.
     and_then (py_get chat ''chatCount'' (JInt 0)) (\<lambda>cc.
     and_then (py_get chat ''chatLength'' (JInt 0)) (\<lambda>cl.
     and_then (py_subscript chat ''chatStartOn'') (\<lambda>start_json.
     and_then (parse_iso_datetime fromisoformat start_json) (\<lambda>start_on.
     and_then (py_subscript chat ''chatEndedOn'') (\<lambda>ended_json.
     and_then (parse_iso_datetime fromisoformat ended_json) (\<lambda>ended_on.
       Inr \<lparr>participant_count = pc, chat_count = cc, chat_length = cl,
            chat_start_on = start_on, chat_ended_on = ended_on\<rparr>)))))))"

text \<open>The body of the loop over \<^verbatim>\<open>chatHistories\<close>: the chat list first, then the identifier.\<close>

definition chat_history :: "(string \<Rightarrow> 'dt option) \<Rightarrow> json \<Rightarrow> py_exc + 'dt ChatHistory" where
  "chat_history fromisoformat chat_history_data =
     and_then (py_get chat_history_data ''chats'' (JList [])) (\<lambda>chats_json.
     and_then (py_iter chats_json) (\<lambda>chats.
     and_then (map_exc (submission_chat fromisoformat) chats) (\<lambda>chat_list.
     and_then (py_get chat_history_data ''sourceChatId'' (JInt 0)) (\<lambda>sid.
       Inr \<lparr>ChatHistory.source_chat_id = sid, chat_list = chat_list\<rparr>))))"

definition chat_histories_of :: "(string \<Rightarrow> 'dt option) \<Rightarrow> json \<Rightarrow> py_exc + 'dt ChatHistory list" where
  "chat_histories_of fromisoformat result_json =
     and_then (py_get result_json ''chatHistories'' (JList [])) (\<lambda>chat_histories_json.
     and_then (py_iter chat_histories_json) (\<lambda>entries.
       map_exc (chat_history fromisoformat) entries))"

text \<open>
  The conversion of \<^verbatim>\<open>lastSubmission\<close>, with its own \<^verbatim>\<open>try\<close>: the parser runs only on a
  truthy value, and only a \<^verbatim>\<open>ValueError\<close> is turned into \<^verbatim>\<open>None\<close>.
\<close>

definition last_submission_of :: "(string \<Rightarrow> 'dt option) \<Rightarrow> json \<Rightarrow> py_exc + 'dt option" where
  "last_submission_of fromisoformat last_submission_val =
     (if truthy last_submission_val
      then (case parse_iso_datetime fromisoformat last_submission_val of
              Inl e \<Rightarrow> if isinstance_ValueError e then Inr None else Inl e
            | Inr d \<Rightarrow> Inr (Some d))
      else Inr None)"

definition historical_result :: "(string \<Rightarrow> 'dt option) \<Rightarrow> json \<Rightarrow> py_exc + 'dt SubmissionHistory" where
  "historical_result fromisoformat result_json =
     and_then (chat_histories_of fromisoformat result_json) (\<lambda>chs.
     and_then (py_get result_json ''lastSubmission'' JNull) (\<lambda>last_submission_val.
     and_then (last_submission_of fromisoformat last_submission_val) (\<lambda>ls.
     and_then (py_get result_json ''isValid'' (JBool False)) (\<lambda>iv.
     and_then (py_get result_json ''errorText'' (JStr [])) (\<lambda>et.
       Inr \<lparr>SubmissionHistory.is_valid = iv, error_text = et,
            last_submission = ls, chat_histories = chs\<rparr>)))))"

text \<open>
  The flow from the answer of \<^verbatim>\<open>requests.post\<close> on: the log it writes and the way it ends.
  In the 200 branch the inner handler logs every \<^verbatim>\<open>ValueError\<close> and calls \<^verbatim>\<open>sys.exit(1)\<close>;
  the outer handler does the same for a \<^verbatim>\<open>RequestException\<close>; so does the branch of the
  other statuses. Any other exception escapes, and nothing is logged for it.
\<close>

definition get_submission_historical_data ::
  "(string \<Rightarrow> 'dt option) \<Rightarrow> py_exc + http_response \<Rightarrow>
     log_call list \<times> 'dt SubmissionHistory outcome" where
  "get_submission_historical_data fromisoformat posted =
     (case posted of
        Inl e \<Rightarrow>
          if isinstance_RequestException e
          then ([LogError ''get_historical_chats:'' [ArgExc e]], Exit 1)
          else ([], Raise e)
      | Inr response \<Rightarrow>
          if status_code response = 200
          then (case and_then (response_json response) (historical_result fromisoformat) of
                  Inl e \<Rightarrow>
                    if isinstance_ValueError e
                    then ([LogError ''Error during parsing Get_historical_chats status: {e}''
                             [ArgExc e]], Exit 1)
                    else if isinstance_RequestException e
                    then ([LogError ''get_historical_chats:'' [ArgExc e]], Exit 1)
                    else ([], Raise e)
                | Inr r \<Rightarrow> ([], Return r))
          else ([LogError ''GetSubmissionHistoricalData failed. Status code: {response.status_code}, Response: {response.text}''
                   [ArgInt (status_code response), ArgStr (response_text response)]], Exit 1))"

section \<open>Evaluation: \<^verbatim>\<open>evaluate_submission\<close>\<close>

text \<open>
  \<^verbatim>\<open>SourceData\<close> lives outside these sources; the flow reads five values from it, kept here
  as they enter the payload.
\<close>

record SourceData =
  proof_token :: json
  source_value :: json
  user_str :: string
  submission_by :: json
  submission_date_iso :: string

definition payload_chat :: "json \<Rightarrow> py_exc + json" where
  "payload_chat chat =
     and_then (py_get chat ''chat_id'' JNull) (\<lambda>cid.
     and_then (py_get chat ''contents'' (JList [])) (\<lambda>contents.
       Inr (JDict [(''ChatId'', cid), (''Contents'', contents)])))"

definition evaluate_payload :: "SourceData \<Rightarrow> json \<Rightarrow> py_exc + json" where
  "evaluate_payload source_data raw_input_data =
     and_then (py_get raw_input_data ''chats'' (JList [])) (\<lambda>raw_chats.
     and_then (py_get raw_input_data ''submission_token'' (JStr [])) (\<lambda>submission_token.
     and_then (py_iter raw_chats) (\<lambda>chats.
     and_then (map_exc payload_chat chats) (\<lambda>payload_chats.
       Inr (JDict
         [(''ProofToken'', proof_token source_data),
          (''DataSource'', source_value source_data),
          (''SourceId'', JStr (user_str source_data)),
          (''SubmittedBy'', submission_by source_data),
          (''SubmittedOn'', JStr (submission_date_iso source_data)),
          (''SubmissionToken'', submission_token),
          (''Chats'', JList payload_chats)])))))"

definition chat_evaluation_summary :: "json \<Rightarrow> py_exc + ChatEvaluationSummary" where
  "chat_evaluation_summary summary_json =
     and_then (py_get summary_json ''sourceChatId'' (JStr [])) (\<lambda>sid.
     and_then (py_get summary_json ''messageCount'' (JInt 0)) (\<lambda>mc.
     and_then (py_get summary_json ''chatQuality'' (JFloat 0)) (\<lambda>cq.
     and_then (py_get summary_json ''chatUniqueness'' (JFloat 0)) (\<lambda>cu.
       Inr \<lparr>ChatEvaluationSummary.source_chat_id = sid, message_count = mc,
            chat_quality = cq, chat_uniqueness = cu\<rparr>))))"

definition evaluation_details :: "json \<Rightarrow> py_exc + EvaluationDetails" where
  "evaluation_details details_json =
     and_then (py_get details_json ''chatSummaries'' (JList [])) (\<lambda>summaries_json.
     and_then (py_iter summaries_json) (\<lambda>summaries.
     and_then (map_exc chat_evaluation_summary summaries) (\<lambda>chat_summaries.
     and_then (py_get details_json ''totalMessages'' (JInt 0)) (\<lambda>tm.
     and_then (py_get details_json ''uniqueMessages'' (JInt 0)) (\<lambda>um.
     and_then (py_get details_json ''llmReasoning'' JNull) (\<lambda>lr.
       Inr \<lparr>total_messages = tm, unique_messages = um, llm_reasoning = lr,
            chat_summaries = chat_summaries\<rparr>))))))"

text \<open>
  The 200 branch. The log line reads \<^verbatim>\<open>quality\<close> and \<^verbatim>\<open>uniqueness\<close> before anything else;
  \<^verbatim>\<open>details\<close> is decoded only when its value is truthy.
\<close>

definition evaluate_result :: "json \<Rightarrow> py_exc + EvaluateSubmissionResponse" where
  "evaluate_result result_json =
     and_then (py_get result_json ''quality'' (JInt 0)) (\<lambda>logged_quality.
     and_then (py_get result_json ''uniqueness'' (JInt 0)) (\<lambda>logged_uniqueness.
     and_then (py_get result_json ''details'' JNull) (\<lambda>details_json.
     and_then (if truthy details_json
               then and_then (evaluation_details details_json) (\<lambda>d. Inr (Some d))
               else Inr None) (\<lambda>dt.
     and_then (py_get result_json ''isValid'' (JBool False)) (\<lambda>iv.
     and_then (py_get result_json ''errorText'' (JStr [])) (\<lambda>et.
     and_then (py_get result_json ''quality'' (JFloat 0)) (\<lambda>q.
     and_then (py_get result_json ''uniqueness'' (JFloat 0)) (\<lambda>u.
     and_then (py_get result_json ''score'' (JFloat 0)) (\<lambda>sc.
       Inr \<lparr>EvaluateSubmissionResponse.is_valid = iv, error_text = et, quality = q,
            uniqueness = u, score = sc, details = dt\<rparr>)))))))))"

text \<open>The result built on both failure paths; \<^verbatim>\<open>details\<close> keeps its default \<^verbatim>\<open>None\<close>.\<close>

definition evaluate_failure :: "string \<Rightarrow> EvaluateSubmissionResponse" where
  "evaluate_failure msg =
     \<lparr>EvaluateSubmissionResponse.is_valid = JBool False, error_text = JStr msg,
      quality = JFloat 0, uniqueness = JFloat 0, score = JFloat 0, details = None\<rparr>"

text \<open>
  The whole body sits in one \<^verbatim>\<open>try\<close>: a \<^verbatim>\<open>RequestException\<close> from any step, the request or
  \<^verbatim>\<open>response.json()\<close>, becomes a failure result; any other exception escapes. This flow
  never calls \<^verbatim>\<open>sys.exit\<close>; its log lines are not recorded here.
\<close>

definition evaluate_submission ::
  "py_exc + http_response \<Rightarrow> SourceData \<Rightarrow> json \<Rightarrow> EvaluateSubmissionResponse outcome" where
  "evaluate_submission posted source_data raw_input_data =
     (case and_then (evaluate_payload source_data raw_input_data) (\<lambda>payload.
           and_then posted (\<lambda>response.
             if status_code response = 200
             then and_then (response_json response) evaluate_result
             else Inr (evaluate_failure
                    (''Evaluate request failed with status '' @ str_int (status_code response))))) of
        Inl e \<Rightarrow>
          if isinstance_RequestException e then Return (evaluate_failure (str_exc e)) else Raise e
      | Inr r \<Rightarrow> Return r)"

section \<open>Submission: \<^verbatim>\<open>submit_data\<close>\<close>

definition submit_data_result :: "json \<Rightarrow> py_exc + SubmitDataResponse" where
  "submit_data_result result_json =
     and_then (py_get result_json ''isValid'' (JBool False)) (\<lambda>iv.
     and_then (py_get result_json ''errorText'' (JStr [])) (\<lambda>et.
       Inr \<lparr>SubmitDataResponse.is_valid = iv, error_text = et\<rparr>))"

text \<open>
  The log and the end of the flow. There is one handler, for \<^verbatim>\<open>RequestException\<close>; it also
  takes what \<^verbatim>\<open>response.json()\<close> raises.
\<close>

definition submit_data :: "py_exc + http_response \<Rightarrow> log_call list \<times> SubmitDataResponse outcome" where
  "submit_data posted =
     (case posted of
        Inl e \<Rightarrow>
          if isinstance_RequestException e
          then ([LogError ''submit_data:'' [ArgExc e]], Exit 1)
          else ([], Raise e)
      | Inr response \<Rightarrow>
          if status_code response = 200
          then (case and_then (response_json response) submit_data_result of
                  Inl e \<Rightarrow>
                    if isinstance_RequestException e
                    then ([LogError ''submit_data:'' [ArgExc e]], Exit 1)
                    else ([], Raise e)
                | Inr r \<Rightarrow> ([], Return r))
          else ([LogError ''Submit data failed. Status code: {response.status_code}, Response: {response.text}''
                   [ArgInt (status_code response), ArgStr (response_text response)]], Exit 1))"

section \<open>Shapes of timestamp strings\<close>

text \<open>
  \<open>frac_then_sign s\<close>: somewhere in \<open>s\<close> a dot is followed by one or more digits and then by a
  sign. \<open>has_fraction s\<close>: somewhere in \<open>s\<close> a dot is followed by a digit.
\<close>

fun frac_then_sign :: "string \<Rightarrow> bool" where
  "frac_then_sign [] = False"
| "frac_then_sign (c # cs) =
     ((c = CHR ''.'' \<and> takeWhile (cmatch Digit) cs \<noteq> [] \<and>
       (case dropWhile (cmatch Digit) cs of [] \<Rightarrow> False | x # _ \<Rightarrow> cmatch (OneOf ''+-'') x))
      \<or> frac_then_sign cs)"

fun has_fraction :: "string \<Rightarrow> bool" where
  "has_fraction [] = False"
| "has_fraction (c # cs) =
     ((c = CHR ''.'' \<and> (case cs of [] \<Rightarrow> False | d # _ \<Rightarrow> cmatch Digit d)) \<or> has_fraction cs)"

text \<open>
  A stand-in for \<^verbatim>\<open>datetime.fromisoformat\<close>, used only to run the flows on examples: it accepts
  the three plain layouts below (\<open>d\<close> a digit, \<open>+\<close> a sign) and returns the accepted text as
  the timestamp.
\<close>

definition fits :: "char \<Rightarrow> char \<Rightarrow> bool" where
  "fits t c =
     (if t = CHR ''d'' then cmatch Digit c
      else if t = CHR ''+'' then cmatch (OneOf ''+-'') c
      else c = t)"

definition example_fromisoformat :: "string \<Rightarrow> string option" where
  "example_fromisoformat s =
     (if list_all2 fits ''dddd-dd-ddTdd:dd:dd.dddddd+dd:dd'' s
         \<or> list_all2 fits ''dddd-dd-ddTdd:dd:dd+dd:dd'' s
         \<or> list_all2 fits ''dddd-dd-ddTdd:dd:dd'' s
      then Some s else None)"

section \<open>The backtracking match on the pattern\<close>

lemma first_from_only_top:
  "(\<forall>k. 0 < k \<and> k < n \<longrightarrow> f k = None) \<Longrightarrow> first_from n f = (if n = 0 then None else f n)"
proof (induction n)
  case 0
  then show ?case by simp
next
  case (Suc n)
  have "first_from n f = None"
  proof (cases n)
    case 0
    then show ?thesis by simp
  next
    case (Suc m)
    with Suc.prems Suc.IH show ?thesis by simp
  qed
  then show ?case by (simp split: option.splits)
qed

lemma first_from_None:
  "(\<forall>k. 0 < k \<and> k \<le> n \<longrightarrow> f k = None) \<Longrightarrow> first_from n f = None"
  by (induction n) simp_all

lemma first_from_skip:
  "m \<le> n \<Longrightarrow> (\<forall>k. m < k \<and> k \<le> n \<longrightarrow> f k = None) \<Longrightarrow> first_from n f = first_from m f"
proof (induction n)
  case 0
  then show ?case by simp
next
  case (Suc n)
  show ?case
  proof (cases "m = Suc n")
    case True
    then show ?thesis by simp
  next
    case False
    with Suc.prems have "m \<le> n" by simp
    moreover from Suc.prems False have "f (Suc n) = None" by simp
    ultimately show ?thesis using Suc by simp
  qed
qed

lemma first_from_SomeD:
  "first_from n f = Some r \<Longrightarrow> \<exists>k. 0 < k \<and> k \<le> n \<and> f k = Some r"
proof (induction n)
  case 0
  then show ?case by simp
next
  case (Suc n)
  show ?case
  proof (cases "f (Suc n)")
    case None
    with Suc.prems have "first_from n f = Some r" by simp
    with Suc.IH obtain k where "0 < k" "k \<le> n" "f k = Some r" by blast
    then show ?thesis by (intro exI [of _ k]) simp
  next
    case (Some a)
    with Suc.prems show ?thesis by (intro exI [of _ "Suc n"]) simp
  qed
qed

lemma drop_in_run:
  assumes "k < length (takeWhile P s)"
  shows "\<exists>x xs. drop k s = x # xs \<and> P x"
proof -
  from assms have kl: "k < length s"
    using length_takeWhile_le [of P s] by (meson less_le_trans)
  have "takeWhile P s ! k = s ! k" using assms by (rule takeWhile_nth)
  moreover have "takeWhile P s ! k \<in> set (takeWhile P s)" using assms by simp
  ultimately have "P (s ! k)" by (metis set_takeWhileD)
  moreover have "drop k s = s ! k # drop (Suc k) s" using kl by (simp add: Cons_nth_drop_Suc)
  ultimately show ?thesis by blast
qed

lemma take_drop_run:
  "take (length (takeWhile P s)) s = takeWhile P s"
  "drop (length (takeWhile P s)) s = dropWhile P s"
  by (simp_all add: takeWhile_eq_take [symmetric] dropWhile_eq_drop [symmetric])

lemma plus_then_one:
  assumes disj: "\<And>x. cmatch c x \<Longrightarrow> \<not> cmatch c' x"
  shows "run_atoms (Plus c # One c' # as) s =
    (if takeWhile (cmatch c) s = [] then None
     else map_option ((#) (takeWhile (cmatch c) s)) (run_atoms (One c' # as) (dropWhile (cmatch c) s)))"
proof -
  let ?n = "length (takeWhile (cmatch c) s)"
  let ?f = "\<lambda>n. map_option ((#) (take n s)) (run_atoms (One c' # as) (drop n s))"
  have "\<forall>k. 0 < k \<and> k < ?n \<longrightarrow> ?f k = None"
  proof (intro allI impI)
    fix k assume "0 < k \<and> k < ?n"
    then obtain x xs where "drop k s = x # xs" "cmatch c x" using drop_in_run by blast
    then show "?f k = None" using disj by simp
  qed
  then have "first_from ?n ?f = (if ?n = 0 then None else ?f ?n)" by (rule first_from_only_top)
  moreover have "run_atoms (Plus c # One c' # as) s = first_from ?n ?f" by simp
  ultimately have "run_atoms (Plus c # One c' # as) s = (if ?n = 0 then None else ?f ?n)" by simp
  then show ?thesis unfolding take_drop_run by simp
qed

lemma plus_at_end:
  "run_atoms [Plus AnyChar] s =
    (if takeWhile (cmatch AnyChar) s \<noteq> [] \<and>
        (dropWhile (cmatch AnyChar) s = [] \<or> dropWhile (cmatch AnyChar) s = [CHR 0x0A])
     then Some [takeWhile (cmatch AnyChar) s] else None)"
proof -
  let ?n = "length (takeWhile (cmatch AnyChar) s)"
  let ?f = "\<lambda>n. map_option ((#) (take n s)) (run_atoms [] (drop n s))"
  have low: "\<forall>k. 0 < k \<and> k < ?n \<longrightarrow> ?f k = None"
  proof (intro allI impI)
    fix k assume "0 < k \<and> k < ?n"
    then obtain x xs where "drop k s = x # xs" "cmatch AnyChar x" using drop_in_run by blast
    then show "?f k = None" by simp
  qed
  have "run_atoms [Plus AnyChar] s = first_from ?n ?f" by simp
  also have "\<dots> = (if ?n = 0 then None else ?f ?n)" using low by (rule first_from_only_top)
  also have "\<dots> = (if takeWhile (cmatch AnyChar) s \<noteq> [] \<and>
        (dropWhile (cmatch AnyChar) s = [] \<or> dropWhile (cmatch AnyChar) s = [CHR 0x0A])
     then Some [takeWhile (cmatch AnyChar) s] else None)"
    unfolding take_drop_run by auto
  finally show ?thesis .
qed



lemma digit_not_sign: "cmatch Digit x \<Longrightarrow> \<not> cmatch (OneOf ''+-'') x"
  by auto

lemma tail_match:
  "run_atoms [Plus Digit, One (OneOf ''+-''), Plus AnyChar] t =
    (if takeWhile (cmatch Digit) t = [] then None
     else case dropWhile (cmatch Digit) t of
            [] \<Rightarrow> None
          | x # xs \<Rightarrow>
              if cmatch (OneOf ''+-'') x
              then map_option (\<lambda>ps. takeWhile (cmatch Digit) t # [x] # ps) (run_atoms [Plus AnyChar] xs)
              else None)"
proof -
  have "run_atoms [Plus Digit, One (OneOf ''+-''), Plus AnyChar] t =
    (if takeWhile (cmatch Digit) t = [] then None
     else map_option ((#) (takeWhile (cmatch Digit) t))
            (run_atoms [One (OneOf ''+-''), Plus AnyChar] (dropWhile (cmatch Digit) t)))"
    using digit_not_sign by (rule plus_then_one)
  also have "\<dots> = (if takeWhile (cmatch Digit) t = [] then None
     else case dropWhile (cmatch Digit) t of
            [] \<Rightarrow> None
          | x # xs \<Rightarrow>
              if cmatch (OneOf ''+-'') x
              then map_option (\<lambda>ps. takeWhile (cmatch Digit) t # [x] # ps) (run_atoms [Plus AnyChar] xs)
              else None)"
  proof (cases "dropWhile (cmatch Digit) t")
    case Nil
    show ?thesis unfolding Nil by simp
  next
    case (Cons x xs)
    show ?thesis unfolding Cons
      by (simp del: run_atoms.simps(3) cmatch.simps add: option.map_comp comp_def)
  qed
  finally show ?thesis .
qed

lemma dot_tail_frac:
  assumes "run_atoms (One (Lit (CHR ''.'')) # [Plus Digit, One (OneOf ''+-''), Plus AnyChar]) u = Some r"
  shows "frac_then_sign u"
proof (cases u)
  case Nil
  with assms have "None = Some r" by (simp only: run_atoms.simps list.case)
  then show ?thesis by simp
next
  case (Cons x t)
  let ?tl = "[Plus Digit, One (OneOf ''+-''), Plus AnyChar]"
  from assms Cons have m: "(if cmatch (Lit (CHR ''.'')) x
      then map_option ((#) [x]) (run_atoms ?tl t) else None) = Some r"
    by (simp only: run_atoms.simps list.case)
  then have x: "x = CHR ''.''"
    by (cases "cmatch (Lit (CHR ''.'')) x") simp_all
  from m have t: "run_atoms ?tl t \<noteq> None"
    by (cases "cmatch (Lit (CHR ''.'')) x") (auto simp del: run_atoms.simps)
  have d: "takeWhile (cmatch Digit) t \<noteq> []"
    using t unfolding tail_match by (auto simp del: run_atoms.simps cmatch.simps split: if_splits)
  have "case dropWhile (cmatch Digit) t of [] \<Rightarrow> False | y # _ \<Rightarrow> cmatch (OneOf ''+-'') y"
    using t unfolding tail_match
    by (auto simp del: run_atoms.simps cmatch.simps dropWhile_eq_Nil_conv
             split: if_splits list.splits)
  with x d Cons show ?thesis by (simp del: cmatch.simps)
qed

lemma frac_then_sign_drop: "frac_then_sign (drop k s) \<Longrightarrow> frac_then_sign s"
proof (induction s arbitrary: k)
  case Nil
  then show ?case by simp
next
  case (Cons c cs)
  show ?case
  proof (cases k)
    case 0
    with Cons.prems show ?thesis by simp
  next
    case (Suc j)
    with Cons.prems have "frac_then_sign (drop j cs)" by simp
    then have "frac_then_sign cs" by (rule Cons.IH)
    then show ?thesis by simp
  qed
qed

lemma pattern_atoms:
  "concat frac_tz_pattern =
     Plus AnyChar # One (Lit (CHR ''.'')) # [Plus Digit, One (OneOf ''+-''), Plus AnyChar]"
  by (simp add: frac_tz_pattern_def)

lemma no_frac_no_match:
  assumes "\<not> frac_then_sign s"
  shows "run_atoms (concat frac_tz_pattern) s = None"
proof -
  let ?tl = "One (Lit (CHR ''.'')) # [Plus Digit, One (OneOf ''+-''), Plus AnyChar]"
  let ?f = "\<lambda>n. map_option ((#) (take n s)) (run_atoms ?tl (drop n s))"
  have "?f k = None" for k
  proof (cases "run_atoms ?tl (drop k s)")
    case None
    then show ?thesis by simp
  next
    case (Some r)
    then have "frac_then_sign (drop k s)" by (rule dot_tail_frac)
    then have "frac_then_sign s" by (rule frac_then_sign_drop)
    with assms show ?thesis by simp
  qed
  then have "first_from (length (takeWhile (cmatch AnyChar) s)) ?f = None"
    by (intro first_from_None) simp
  then show ?thesis unfolding pattern_atoms by simp
qed

lemma first_from_top: "0 < n \<Longrightarrow> f n = Some r \<Longrightarrow> first_from n f = Some r"
  by (cases n) simp_all

lemma digit_not_dot: "cmatch Digit c \<Longrightarrow> c \<noteq> CHR ''.''"
  by auto

lemma sign_not_dot: "cmatch (OneOf ''+-'') c \<Longrightarrow> c \<noteq> CHR ''.''"
  by auto

lemma digit_is_any: "cmatch Digit c \<Longrightarrow> cmatch AnyChar c"
  by auto

lemma sign_is_any: "cmatch (OneOf ''+-'') c \<Longrightarrow> cmatch AnyChar c"
  by auto

lemma frac_then_sign_digits:
  "\<forall>c\<in>set fr. cmatch Digit c \<Longrightarrow> frac_then_sign (fr @ xs) = frac_then_sign xs"
proof (induction fr)
  case Nil
  then show ?case by simp
next
  case (Cons c fr)
  then have "c \<noteq> CHR ''.''" using digit_not_dot by simp
  with Cons show ?case by (simp del: cmatch.simps)
qed

lemma tail_match_shape:
  assumes fr: "fr \<noteq> []" "\<forall>c\<in>set fr. cmatch Digit c"
    and sg: "cmatch (OneOf ''+-'') sg"
    and off: "off \<noteq> []" "\<forall>c\<in>set off. cmatch AnyChar c"
  shows "run_atoms [Plus Digit, One (OneOf ''+-''), Plus AnyChar] (fr @ sg # off) = Some [fr, [sg], off]"
proof -
  have nd: "\<not> cmatch Digit sg" using sg digit_not_sign by blast
  have tw: "takeWhile (cmatch Digit) (fr @ sg # off) = fr"
    using fr(2) nd by (simp add: takeWhile_append2 del: cmatch.simps)
  have dw: "dropWhile (cmatch Digit) (fr @ sg # off) = sg # off"
    using fr(2) nd by (simp add: dropWhile_append2 del: cmatch.simps)
  have two: "takeWhile (cmatch AnyChar) off = off" "dropWhile (cmatch AnyChar) off = []"
    using off(2) by (simp_all del: cmatch.simps)
  have last: "run_atoms [Plus AnyChar] off = Some [off]"
    unfolding plus_at_end two using off(1) by simp
  show ?thesis unfolding tail_match tw dw using fr(1) sg last
    by (simp del: run_atoms.simps cmatch.simps)
qed

lemma match_shape:
  assumes b: "b \<noteq> []" "\<forall>c\<in>set b. cmatch AnyChar c"
    and fr: "fr \<noteq> []" "\<forall>c\<in>set fr. cmatch Digit c"
    and sg: "cmatch (OneOf ''+-'') sg"
    and off: "off \<noteq> []" "\<forall>c\<in>set off. cmatch AnyChar c" "\<not> frac_then_sign off"
  shows "run_atoms (concat frac_tz_pattern) (b @ CHR ''.'' # fr @ sg # off) =
           Some [b, ''.'', fr, [sg], off]"
proof -
  let ?s = "b @ CHR ''.'' # fr @ sg # off"
  let ?tl = "One (Lit (CHR ''.'')) # [Plus Digit, One (OneOf ''+-''), Plus AnyChar]"
  let ?f = "\<lambda>n. map_option ((#) (take n ?s)) (run_atoms ?tl (drop n ?s))"
  have all: "\<forall>c\<in>set ?s. cmatch AnyChar c"
  proof -
    have "cmatch AnyChar (CHR ''.'')" by simp
    then show ?thesis
      using b(2) fr(2) off(2) digit_is_any sign_is_any [OF sg]
      by (auto simp del: cmatch.simps)
  qed
  then have run: "takeWhile (cmatch AnyChar) ?s = ?s" by (simp del: cmatch.simps)
  have rest: "\<not> frac_then_sign (fr @ sg # off)"
    using fr(2) sg off(3) sign_not_dot [OF sg]
    by (simp add: frac_then_sign_digits del: cmatch.simps)
  have high: "\<forall>k. length b < k \<and> k \<le> length ?s \<longrightarrow> ?f k = None"
  proof (intro allI impI)
    fix k assume k: "length b < k \<and> k \<le> length ?s"
    show "?f k = None"
    proof (cases "run_atoms ?tl (drop k ?s)")
      case None
      then show ?thesis by simp
    next
      case (Some r)
      then have "frac_then_sign (drop k ?s)" by (rule dot_tail_frac)
      moreover from k obtain j where "k = length b + Suc j"
        by (metis less_iff_Suc_add add_Suc_right)
      then have "drop k ?s = drop j (fr @ sg # off)" by simp
      ultimately have "frac_then_sign (fr @ sg # off)" using frac_then_sign_drop by metis
      with rest show ?thesis by simp
    qed
  qed
  have "run_atoms ?tl (drop (length b) ?s) =
          map_option ((#) ''.'') (run_atoms [Plus Digit, One (OneOf ''+-''), Plus AnyChar] (fr @ sg # off))"
    by (simp del: run_atoms.simps(3))
  also have "\<dots> = Some [''.'', fr, [sg], off]"
    unfolding tail_match_shape [OF fr sg off(1,2)] by simp
  finally have at: "?f (length b) = Some [b, ''.'', fr, [sg], off]" by simp
  have "run_atoms (concat frac_tz_pattern) ?s = first_from (length ?s) ?f"
    unfolding pattern_atoms run_atoms.simps run ..
  also have "\<dots> = first_from (length b) ?f"
    using high by (intro first_from_skip) simp_all
  also have "\<dots> = Some [b, ''.'', fr, [sg], off]"
    using b(1) at by (intro first_from_top) simp_all
  finally show ?thesis .
qed

declare cmatch.simps [simp del]
declare run_atoms.simps [simp del]

lemma tail_match_SomeD:
  assumes "run_atoms [Plus Digit, One (OneOf ''+-''), Plus AnyChar] t = Some q"
  shows "\<exists>x xs. q = [takeWhile (cmatch Digit) t, [x], takeWhile (cmatch AnyChar) xs] \<and>
           dropWhile (cmatch Digit) t = x # xs \<and> takeWhile (cmatch Digit) t \<noteq> [] \<and>
           cmatch (OneOf ''+-'') x \<and> takeWhile (cmatch AnyChar) xs \<noteq> [] \<and>
           (dropWhile (cmatch AnyChar) xs = [] \<or> dropWhile (cmatch AnyChar) xs = [CHR 0x0A])"
  using assms unfolding tail_match plus_at_end
  by (auto simp del: run_atoms.simps cmatch.simps dropWhile_eq_Nil_conv takeWhile_eq_Nil_iff
           split: if_splits list.splits)

lemma pattern_match_SomeD:
  assumes "run_atoms (concat frac_tz_pattern) s = Some ps"
  shows "\<exists>b fr x body nl. ps = [b, ''.'', fr, [x], body] \<and> s = b @ ''.'' @ fr @ x # body @ nl \<and>
           b \<noteq> [] \<and> fr \<noteq> [] \<and> (\<forall>c\<in>set fr. cmatch Digit c) \<and> cmatch (OneOf ''+-'') x \<and>
           body \<noteq> [] \<and> (nl = [] \<or> nl = [CHR 0x0A])"
proof -
  let ?tl3 = "[Plus Digit, One (OneOf ''+-''), Plus AnyChar]"
  let ?tl = "One (Lit (CHR ''.'')) # ?tl3"
  let ?f = "\<lambda>n. map_option ((#) (take n s)) (run_atoms ?tl (drop n s))"
  from assms have "first_from (length (takeWhile (cmatch AnyChar) s)) ?f = Some ps"
    unfolding pattern_atoms by (simp only: run_atoms.simps(3))
  then have "\<exists>k. 0 < k \<and> k \<le> length (takeWhile (cmatch AnyChar) s) \<and> ?f k = Some ps"
    by (rule first_from_SomeD)
  then obtain k where k: "0 < k" "?f k = Some ps" by (elim exE conjE)
  then obtain ps' where ps': "run_atoms ?tl (drop k s) = Some ps'" "ps = take k s # ps'"
    by (cases "run_atoms ?tl (drop k s)") (auto simp only: option.map option.inject option.distinct)
  have kl: "k < length s"
  proof (rule ccontr)
    assume "\<not> k < length s"
    then have "drop k s = []" by simp
    with ps'(1) have "None = Some ps'" by (simp only: run_atoms.simps list.case)
    then show False by simp
  qed
  obtain c t where ct: "drop k s = c # t" using kl by (cases "drop k s") auto
  from ps'(1) ct have m: "(if cmatch (Lit (CHR ''.'')) c
      then map_option ((#) [c]) (run_atoms ?tl3 t) else None) = Some ps'"
    by (simp only: run_atoms.simps list.case)
  then have c: "c = CHR ''.''"
    by (cases "cmatch (Lit (CHR ''.'')) c") (simp_all add: cmatch.simps)
  from m c have "map_option ((#) ''.'') (run_atoms ?tl3 t) = Some ps'"
    by (simp add: cmatch.simps)
  then obtain q where q: "run_atoms ?tl3 t = Some q" "ps' = ''.'' # q"
    by (cases "run_atoms ?tl3 t") (auto simp only: option.map option.inject option.distinct)
  from tail_match_SomeD [OF q(1)] obtain x xs where
    x: "q = [takeWhile (cmatch Digit) t, [x], takeWhile (cmatch AnyChar) xs]"
       "dropWhile (cmatch Digit) t = x # xs" "takeWhile (cmatch Digit) t \<noteq> []"
       "cmatch (OneOf ''+-'') x" "takeWhile (cmatch AnyChar) xs \<noteq> []"
       "dropWhile (cmatch AnyChar) xs = [] \<or> dropWhile (cmatch AnyChar) xs = [CHR 0x0A]"
    by blast
  have "s = take k s @ drop k s" by simp
  also have "drop k s = CHR ''.'' # takeWhile (cmatch Digit) t @ dropWhile (cmatch Digit) t"
    using ct c by simp
  also have "dropWhile (cmatch Digit) t =
      x # takeWhile (cmatch AnyChar) xs @ dropWhile (cmatch AnyChar) xs"
    using x(2) by simp
  finally have s: "s = take k s @ ''.'' @ takeWhile (cmatch Digit) t @
      x # takeWhile (cmatch AnyChar) xs @ dropWhile (cmatch AnyChar) xs" by simp
  have b: "take k s \<noteq> []" using k(1) kl by auto
  have d: "\<forall>c\<in>set (takeWhile (cmatch Digit) t). cmatch Digit c"
    by (meson set_takeWhileD)
  show ?thesis
    apply (rule exI [of _ "take k s"])
    apply (rule exI [of _ "takeWhile (cmatch Digit) t"])
    apply (rule exI [of _ x])
    apply (rule exI [of _ "takeWhile (cmatch AnyChar) xs"])
    apply (rule exI [of _ "dropWhile (cmatch AnyChar) xs"])
    using ps'(2) q(2) x(1) s b x(3) d x(4) x(5) x(6) apply (intro conjI)
           apply (simp_all del: cmatch.simps run_atoms.simps takeWhile_eq_Nil_iff dropWhile_eq_Nil_conv)
    done
qed

lemma rsplit1_dot:
  assumes "CHR ''.'' \<notin> set fr"
  shows "rsplit1 (CHR ''.'') (b @ ''.'' @ fr) = [b, fr]"
proof -
  let ?P = "\<lambda>c. c \<noteq> CHR ''.''"
  have r: "rev (b @ ''.'' @ fr) = rev fr @ CHR ''.'' # rev b" by simp
  have nd: "\<And>c. c \<in> set (rev fr) \<Longrightarrow> ?P c" using assms by auto
  have "takeWhile ?P (rev fr @ CHR ''.'' # rev b) = rev fr @ takeWhile ?P (CHR ''.'' # rev b)"
    using nd by (rule takeWhile_append2)
  then have t: "takeWhile ?P (rev fr @ CHR ''.'' # rev b) = rev fr" by simp
  have "dropWhile ?P (rev fr @ CHR ''.'' # rev b) = dropWhile ?P (CHR ''.'' # rev b)"
    using nd by (rule dropWhile_append2)
  then have d: "dropWhile ?P (rev fr @ CHR ''.'' # rev b) = CHR ''.'' # rev b" by simp
  have "CHR ''.'' \<in> set (b @ ''.'' @ fr)" by simp
  then show ?thesis unfolding rsplit1_def r t d by simp
qed

lemma digits_no_dot: "\<forall>c\<in>set fr. cmatch Digit c \<Longrightarrow> CHR ''.'' \<notin> set fr"
  using digit_not_dot by blast

lemma groups_of_pieces:
  "regroup (map length frac_tz_pattern) [b, ''.'', fr, [x], body] = [b @ ''.'' @ fr, x # body]"
  by (simp add: frac_tz_pattern_def)

lemma normalized_of_match:
  assumes "run_atoms (concat frac_tz_pattern) (replace_Z s) = Some [b, ''.'', fr, [x], body]"
    and "\<forall>c\<in>set fr. cmatch Digit c"
  shows "normalized_date_string s =
           Inr (b @ ''.'' @ ljust 6 (CHR ''0'') (take 6 fr) @ x # body)"
proof -
  have "re_match_groups frac_tz_pattern (replace_Z s) = Some [b @ ''.'' @ fr, x # body]"
    unfolding re_match_groups_def assms(1) option.map groups_of_pieces ..
  moreover have "rsplit1 (CHR ''.'') (b @ ''.'' @ fr) = [b, fr]"
    using assms(2) by (intro rsplit1_dot digits_no_dot)
  ultimately show ?thesis by (simp add: normalized_date_string_def)
qed

lemma normalized_no_match:
  assumes "\<not> frac_then_sign (replace_Z s)"
  shows "normalized_date_string s = Inr (replace_Z s)"
proof -
  have "re_match_groups frac_tz_pattern (replace_Z s) = None"
    unfolding re_match_groups_def no_frac_no_match [OF assms] by simp
  then show ?thesis by (simp add: normalized_date_string_def)
qed

lemma normalized_cases:
  "normalized_date_string s = Inr (replace_Z s) \<or>
   (\<exists>b fr x body nl. replace_Z s = b @ ''.'' @ fr @ x # body @ nl \<and>
       b \<noteq> [] \<and> fr \<noteq> [] \<and> (\<forall>c\<in>set fr. cmatch Digit c) \<and> cmatch (OneOf ''+-'') x \<and>
       body \<noteq> [] \<and> (nl = [] \<or> nl = [CHR 0x0A]) \<and>
       normalized_date_string s = Inr (b @ ''.'' @ ljust 6 (CHR ''0'') (take 6 fr) @ x # body))"
proof (cases "run_atoms (concat frac_tz_pattern) (replace_Z s)")
  case None
  then have "re_match_groups frac_tz_pattern (replace_Z s) = None"
    by (simp add: re_match_groups_def)
  then show ?thesis by (simp add: normalized_date_string_def)
next
  case (Some ps)
  from pattern_match_SomeD [OF Some] obtain b fr x body nl where
    p: "ps = [b, ''.'', fr, [x], body]" "replace_Z s = b @ ''.'' @ fr @ x # body @ nl"
       "b \<noteq> []" "fr \<noteq> []" "\<forall>c\<in>set fr. cmatch Digit c" "cmatch (OneOf ''+-'') x"
       "body \<noteq> []" "nl = [] \<or> nl = [CHR 0x0A]"
    by blast
  have "normalized_date_string s = Inr (b @ ''.'' @ ljust 6 (CHR ''0'') (take 6 fr) @ x # body)"
    using Some p(1) p(5) by (intro normalized_of_match) simp_all
  with p show ?thesis by blast
qed

section \<open>Properties of the normalizer\<close>

lemma ljust_take6:
  "ljust 6 (CHR ''0'') (take 6 fr) =
     (if 6 \<le> length fr then take 6 fr else fr @ replicate (6 - length fr) (CHR ''0''))"
  by (simp add: ljust_def)

lemma any_char_iff: "(\<forall>c\<in>set xs. cmatch AnyChar c) \<longleftrightarrow> CHR 0x0A \<notin> set xs"
  by (auto simp add: cmatch.simps)

lemma normalized_shape:
  assumes "replace_Z s = b @ ''.'' @ fr @ sg # off"
    and "b \<noteq> []" "CHR 0x0A \<notin> set b"
    and "fr \<noteq> []" "\<forall>c\<in>set fr. cmatch Digit c"
    and "cmatch (OneOf ''+-'') sg"
    and "off \<noteq> []" "CHR 0x0A \<notin> set off" "\<not> frac_then_sign off"
  shows "normalized_date_string s =
           Inr (b @ ''.'' @ (if 6 \<le> length fr then take 6 fr
                             else fr @ replicate (6 - length fr) (CHR ''0'')) @ sg # off)"
proof -
  have "run_atoms (concat frac_tz_pattern) (b @ CHR ''.'' # fr @ sg # off) =
          Some [b, ''.'', fr, [sg], off]"
    using assms(2-9) by (intro match_shape) (simp_all add: any_char_iff)
  then have "run_atoms (concat frac_tz_pattern) (replace_Z s) = Some [b, ''.'', fr, [sg], off]"
    using assms(1) by simp
  then have "normalized_date_string s =
      Inr (b @ ''.'' @ ljust 6 (CHR ''0'') (take 6 fr) @ sg # off)"
    using assms(5) by (rule normalized_of_match)
  then show ?thesis unfolding ljust_take6 .
qed

lemma normalized_total:
  "\<exists>t. normalized_date_string s = Inr t \<and>
     (t = replace_Z s \<or>
      (\<exists>b fr x body nl. replace_Z s = b @ ''.'' @ fr @ x # body @ nl \<and>
         b \<noteq> [] \<and> fr \<noteq> [] \<and> (\<forall>c\<in>set fr. cmatch Digit c) \<and> cmatch (OneOf ''+-'') x \<and>
         body \<noteq> [] \<and> (nl = [] \<or> nl = [CHR 0x0A]) \<and>
         t = b @ ''.'' @ (if 6 \<le> length fr then take 6 fr
                          else fr @ replicate (6 - length fr) (CHR ''0'')) @ x # body))"
  using normalized_cases [of s] unfolding ljust_take6 by blast

lemma parse_of_normalized:
  "normalized_date_string s = Inr t \<Longrightarrow>
   parse_iso_datetime fromisoformat (JStr s) =
     (case fromisoformat t of None \<Rightarrow> Inl ValueError | Some d \<Rightarrow> Inr d)"
  by simp

lemma example_normalized:
  "normalized_date_string ''2024-01-15T10:30:00.123456789Z'' = Inr ''2024-01-15T10:30:00.123456+00:00''"
  by code_simp


text \<open>
  C1. For every input string the normalizer first replaces a final \<^verbatim>\<open>Z\<close> by \<^verbatim>\<open>+00:00\<close>; the
  string it parses is then either that string itself or, at a dot followed by digits, a sign
  and an offset, the same string with the digit run cut to its first six digits when longer
  and padded with zeros to six when shorter; a string of the shape date-time, dot, digits,
  sign, offset is rewritten in place in exactly that way; and
  \<^verbatim>\<open>2024-01-15T10:30:00.123456789Z\<close> is parsed as \<^verbatim>\<open>2024-01-15T10:30:00.123456+00:00\<close>.
\<close>

theorem parse_iso_datetime_normalizes:
  "(endswith s ''Z'' \<longrightarrow> replace_Z s = butlast s @ ''+00:00'') \<and>
   (\<not> endswith s ''Z'' \<longrightarrow> replace_Z s = s) \<and>
   (\<exists>t. normalized_date_string s = Inr t \<and>
      parse_iso_datetime fromisoformat (JStr s) =
        (case fromisoformat t of None \<Rightarrow> Inl ValueError | Some d \<Rightarrow> Inr d) \<and>
      (t = replace_Z s \<or>
       (\<exists>b fr x body nl. replace_Z s = b @ ''.'' @ fr @ x # body @ nl \<and>
          b \<noteq> [] \<and> fr \<noteq> [] \<and> (\<forall>c\<in>set fr. cmatch Digit c) \<and> cmatch (OneOf ''+-'') x \<and>
          body \<noteq> [] \<and> (nl = [] \<or> nl = [CHR 0x0A]) \<and>
          t = b @ ''.'' @ (if 6 \<le> length fr then take 6 fr
                           else fr @ replicate (6 - length fr) (CHR ''0'')) @ x # body))) \<and>
   (replace_Z s = b0 @ ''.'' @ fr0 @ sg # off \<and> b0 \<noteq> [] \<and> CHR 0x0A \<notin> set b0 \<and>
    fr0 \<noteq> [] \<and> (\<forall>c\<in>set fr0. cmatch Digit c) \<and> cmatch (OneOf ''+-'') sg \<and>
    off \<noteq> [] \<and> CHR 0x0A \<notin> set off \<and> \<not> frac_then_sign off \<longrightarrow>
    parse_iso_datetime fromisoformat (JStr s) =
      (case fromisoformat
              (b0 @ ''.'' @ (if 6 \<le> length fr0 then take 6 fr0
                             else fr0 @ replicate (6 - length fr0) (CHR ''0'')) @ sg # off) of
         None \<Rightarrow> Inl ValueError | Some d \<Rightarrow> Inr d)) \<and>
   parse_iso_datetime fromisoformat (JStr ''2024-01-15T10:30:00.123456789Z'') =
     (case fromisoformat ''2024-01-15T10:30:00.123456+00:00'' of
        None \<Rightarrow> Inl ValueError | Some d \<Rightarrow> Inr d)"
proof (intro conjI)
  show "endswith s ''Z'' \<longrightarrow> replace_Z s = butlast s @ ''+00:00''"
    by (simp add: replace_Z_def)
  show "\<not> endswith s ''Z'' \<longrightarrow> replace_Z s = s"
    by (simp add: replace_Z_def)
  from normalized_total [of s] obtain t where
    t: "normalized_date_string s = Inr t"
       "t = replace_Z s \<or>
        (\<exists>b fr x body nl. replace_Z s = b @ ''.'' @ fr @ x # body @ nl \<and>
          b \<noteq> [] \<and> fr \<noteq> [] \<and> (\<forall>c\<in>set fr. cmatch Digit c) \<and> cmatch (OneOf ''+-'') x \<and>
          body \<noteq> [] \<and> (nl = [] \<or> nl = [CHR 0x0A]) \<and>
          t = b @ ''.'' @ (if 6 \<le> length fr then take 6 fr
                           else fr @ replicate (6 - length fr) (CHR ''0'')) @ x # body)"
    by blast
  show "\<exists>t. normalized_date_string s = Inr t \<and>
      parse_iso_datetime fromisoformat (JStr s) =
        (case fromisoformat t of None \<Rightarrow> Inl ValueError | Some d \<Rightarrow> Inr d) \<and>
      (t = replace_Z s \<or>
       (\<exists>b fr x body nl. replace_Z s = b @ ''.'' @ fr @ x # body @ nl \<and>
          b \<noteq> [] \<and> fr \<noteq> [] \<and> (\<forall>c\<in>set fr. cmatch Digit c) \<and> cmatch (OneOf ''+-'') x \<and>
          body \<noteq> [] \<and> (nl = [] \<or> nl = [CHR 0x0A]) \<and>
          t = b @ ''.'' @ (if 6 \<le> length fr then take 6 fr
                           else fr @ replicate (6 - length fr) (CHR ''0'')) @ x # body))"
    using t parse_of_normalized [OF t(1), of fromisoformat] by (intro exI [of _ t] conjI)
  show "replace_Z s = b0 @ ''.'' @ fr0 @ sg # off \<and> b0 \<noteq> [] \<and> CHR 0x0A \<notin> set b0 \<and>
    fr0 \<noteq> [] \<and> (\<forall>c\<in>set fr0. cmatch Digit c) \<and> cmatch (OneOf ''+-'') sg \<and>
    off \<noteq> [] \<and> CHR 0x0A \<notin> set off \<and> \<not> frac_then_sign off \<longrightarrow>
    parse_iso_datetime fromisoformat (JStr s) =
      (case fromisoformat
              (b0 @ ''.'' @ (if 6 \<le> length fr0 then take 6 fr0
                             else fr0 @ replicate (6 - length fr0) (CHR ''0'')) @ sg # off) of
         None \<Rightarrow> Inl ValueError | Some d \<Rightarrow> Inr d)"
  proof
    assume h: "replace_Z s = b0 @ ''.'' @ fr0 @ sg # off \<and> b0 \<noteq> [] \<and> CHR 0x0A \<notin> set b0 \<and>
      fr0 \<noteq> [] \<and> (\<forall>c\<in>set fr0. cmatch Digit c) \<and> cmatch (OneOf ''+-'') sg \<and>
      off \<noteq> [] \<and> CHR 0x0A \<notin> set off \<and> \<not> frac_then_sign off"
    then have "normalized_date_string s =
        Inr (b0 @ ''.'' @ (if 6 \<le> length fr0 then take 6 fr0
                           else fr0 @ replicate (6 - length fr0) (CHR ''0'')) @ sg # off)"
      by (intro normalized_shape) simp_all
    then show "parse_iso_datetime fromisoformat (JStr s) =
      (case fromisoformat
              (b0 @ ''.'' @ (if 6 \<le> length fr0 then take 6 fr0
                             else fr0 @ replicate (6 - length fr0) (CHR ''0'')) @ sg # off) of
         None \<Rightarrow> Inl ValueError | Some d \<Rightarrow> Inr d)"
      by (rule parse_of_normalized)
  qed
  show "parse_iso_datetime fromisoformat (JStr ''2024-01-15T10:30:00.123456789Z'') =
     (case fromisoformat ''2024-01-15T10:30:00.123456+00:00'' of
        None \<Rightarrow> Inl ValueError | Some d \<Rightarrow> Inr d)"
    using example_normalized by (rule parse_of_normalized)
qed

lemma example_shape:
  "replace_Z ''2024-01-15T10:30:00.5+02:00'' =
      ''2024-01-15T10:30:00'' @ ''.'' @ ''5'' @ CHR ''+'' # ''02:00'' \<and>
   ''2024-01-15T10:30:00'' \<noteq> [] \<and> CHR 0x0A \<notin> set ''2024-01-15T10:30:00'' \<and>
   ''5'' \<noteq> [] \<and> (\<forall>c\<in>set ''5''. cmatch Digit c) \<and> cmatch (OneOf ''+-'') (CHR ''+'') \<and>
   ''02:00'' \<noteq> [] \<and> CHR 0x0A \<notin> set ''02:00'' \<and> \<not> frac_then_sign ''02:00''"
  by (simp add: replace_Z_def endswith_def cmatch.simps)

theorem parse_iso_datetime_normalizes_witness:
  "endswith ''2024-01-15T10:30:00.123456789Z'' ''Z'' \<and>
   replace_Z ''2024-01-15T10:30:00.123456789Z'' = ''2024-01-15T10:30:00.123456789+00:00'' \<and>
   \<not> endswith ''2024-01-15T10:30:00.5+02:00'' ''Z'' \<and>
   replace_Z ''2024-01-15T10:30:00.5+02:00'' = ''2024-01-15T10:30:00.5+02:00'' \<and>
   parse_iso_datetime example_fromisoformat (JStr ''2024-01-15T10:30:00.5+02:00'') =
     Inr ''2024-01-15T10:30:00.500000+02:00''"
proof -
  have z: "endswith ''2024-01-15T10:30:00.123456789Z'' ''Z''"
    by (simp add: endswith_def)
  have nz: "\<not> endswith ''2024-01-15T10:30:00.5+02:00'' ''Z''"
    by (simp add: endswith_def)
  note a = parse_iso_datetime_normalizes
    [where s = "''2024-01-15T10:30:00.123456789Z''" and fromisoformat = example_fromisoformat]
  note b = parse_iso_datetime_normalizes
    [where s = "''2024-01-15T10:30:00.5+02:00''" and ?b0.0 = "''2024-01-15T10:30:00''"
       and ?fr0.0 = "''5''" and sg = "CHR ''+''" and off = "''02:00''"
       and fromisoformat = example_fromisoformat]
  have r1: "replace_Z ''2024-01-15T10:30:00.123456789Z'' = ''2024-01-15T10:30:00.123456789+00:00''"
    using a [THEN conjunct1, THEN mp, OF z] by simp
  have r2: "replace_Z ''2024-01-15T10:30:00.5+02:00'' = ''2024-01-15T10:30:00.5+02:00''"
    by (rule b [THEN conjunct2, THEN conjunct1, THEN mp, OF nz])
  have "parse_iso_datetime example_fromisoformat (JStr ''2024-01-15T10:30:00.5+02:00'') =
      (case example_fromisoformat
              (''2024-01-15T10:30:00'' @ ''.'' @ (if 6 \<le> length ''5'' then take 6 ''5''
                 else ''5'' @ replicate (6 - length ''5'') (CHR ''0'')) @ CHR ''+'' # ''02:00'') of
         None \<Rightarrow> Inl ValueError | Some d \<Rightarrow> Inr d)"
    by (rule b [THEN conjunct2, THEN conjunct2, THEN conjunct2, THEN conjunct1, THEN mp,
                OF example_shape])
  also have "\<dots> = Inr ''2024-01-15T10:30:00.500000+02:00''"
    by (simp add: example_fromisoformat_def fits_def cmatch.simps eval_nat_numeral)
  finally show ?thesis using z nz r1 r2 by simp
qed

lemma endswith_Z_iff: "endswith s ''Z'' \<longleftrightarrow> s \<noteq> [] \<and> last s = CHR ''Z''"
proof (cases s rule: rev_cases)
  case Nil
  then show ?thesis by (simp add: endswith_def)
next
  case (snoc ys y)
  then show ?thesis by (auto simp add: endswith_def)
qed

lemma normalized_unchanged:
  assumes "\<not> endswith s ''Z''" and "\<not> frac_then_sign s"
  shows "normalized_date_string s = Inr s"
proof -
  have "replace_Z s = s" using assms(1) by (simp add: replace_Z_def)
  then show ?thesis using normalized_no_match [of s] assms(2) by simp
qed

lemma frac_then_sign_has_fraction: "frac_then_sign s \<Longrightarrow> has_fraction s"
proof (induction s)
  case Nil
  then show ?case by simp
next
  case (Cons c cs)
  show ?case
  proof (cases "frac_then_sign cs")
    case True
    then show ?thesis using Cons.IH by simp
  next
    case False
    with Cons.prems have c: "c = CHR ''.''" and t: "takeWhile (cmatch Digit) cs \<noteq> []"
      by simp_all
    from t obtain d ds where "cs = d # ds" "cmatch Digit d"
      by (cases cs) (auto split: if_splits)
    with c show ?thesis by simp
  qed
qed

lemma no_dot_no_frac: "CHR ''.'' \<notin> set xs \<Longrightarrow> \<not> frac_then_sign xs"
  by (induction xs) auto

text \<open>
  C10. The rewriting of the fractional run needs a sign after the digits: for every string
  that does not end in \<^verbatim>\<open>Z\<close> and in which no dot-and-digits run is followed by a sign, the
  string handed to the final parse is the input itself, so the run keeps its length.
\<close>

theorem fraction_without_sign_untouched:
  assumes "\<not> endswith s ''Z''" and "\<not> frac_then_sign s"
  shows "normalized_date_string s = Inr s \<and>
         parse_iso_datetime fromisoformat (JStr s) =
           (case fromisoformat s of None \<Rightarrow> Inl ValueError | Some d \<Rightarrow> Inr d)"
  using normalized_unchanged [OF assms] by simp

theorem fraction_without_sign_untouched_witness:
  "\<not> endswith ''2024-01-15T10:30:00.123456789'' ''Z'' \<and>
   \<not> frac_then_sign ''2024-01-15T10:30:00.123456789'' \<and>
   has_fraction ''2024-01-15T10:30:00.123456789'' \<and>
   normalized_date_string ''2024-01-15T10:30:00.123456789'' = Inr ''2024-01-15T10:30:00.123456789'' \<and>
   parse_iso_datetime example_fromisoformat (JStr ''2024-01-15T10:30:00.123456789'') = Inl ValueError"
proof -
  have a: "\<not> endswith ''2024-01-15T10:30:00.123456789'' ''Z''"
    by (simp add: endswith_def)
  have b: "\<not> frac_then_sign ''2024-01-15T10:30:00.123456789''"
    by (simp add: cmatch.simps)
  have c: "has_fraction ''2024-01-15T10:30:00.123456789''"
    by (simp add: cmatch.simps)
  have d: "example_fromisoformat ''2024-01-15T10:30:00.123456789'' = None"
    by (simp add: example_fromisoformat_def fits_def cmatch.simps)
  show ?thesis
    using fraction_without_sign_untouched [OF a b, of example_fromisoformat] a b c d
    by (simp del: parse_iso_datetime.simps)
qed

text \<open>
  C8. A string with no fractional component (no dot followed by a digit) and no final
  \<^verbatim>\<open>Z\<close> is not rewritten: the final parse receives the input unchanged.
\<close>

theorem plain_string_passed_through:
  assumes "\<not> endswith s ''Z''" and "\<not> has_fraction s"
  shows "normalized_date_string s = Inr s \<and>
         parse_iso_datetime fromisoformat (JStr s) =
           (case fromisoformat s of None \<Rightarrow> Inl ValueError | Some d \<Rightarrow> Inr d)"
proof -
  have "\<not> frac_then_sign s" using assms(2) frac_then_sign_has_fraction by blast
  with assms(1) have "normalized_date_string s = Inr s" by (rule normalized_unchanged)
  then show ?thesis by simp
qed

theorem plain_string_passed_through_witness:
  "\<not> endswith ''2024-01-15T10:30:00+02:00'' ''Z'' \<and>
   \<not> has_fraction ''2024-01-15T10:30:00+02:00'' \<and>
   normalized_date_string ''2024-01-15T10:30:00+02:00'' = Inr ''2024-01-15T10:30:00+02:00'' \<and>
   parse_iso_datetime example_fromisoformat (JStr ''2024-01-15T10:30:00+02:00'') =
     Inr ''2024-01-15T10:30:00+02:00''"
proof -
  have a: "\<not> endswith ''2024-01-15T10:30:00+02:00'' ''Z''"
    by (simp add: endswith_def)
  have b: "\<not> has_fraction ''2024-01-15T10:30:00+02:00''"
    by (simp add: cmatch.simps)
  have d: "example_fromisoformat ''2024-01-15T10:30:00+02:00'' = Some ''2024-01-15T10:30:00+02:00''"
    by (simp add: example_fromisoformat_def fits_def cmatch.simps)
  show ?thesis
    using plain_string_passed_through [OF a b, of example_fromisoformat] a b d
    by (simp del: parse_iso_datetime.simps)
qed


text \<open>
  C7. On a string that is already canonical (a date-time part, a dot, exactly six digits, a
  sign and an offset of digits and colons) the normalizer changes nothing: the parser
  receives the input itself, so the timestamp is the parser's own reading of the input, and
  normalizing the normalized string again gives the same string.
\<close>

theorem canonical_input_unchanged:
  assumes "s = b @ ''.'' @ fr @ sg # off"
    and "b \<noteq> []" "CHR 0x0A \<notin> set b"
    and "length fr = 6" "\<forall>c\<in>set fr. cmatch Digit c"
    and "cmatch (OneOf ''+-'') sg"
    and "off \<noteq> []" "set off \<subseteq> set ''0123456789:''"
  shows "normalized_date_string s = Inr s \<and>
         parse_iso_datetime fromisoformat (JStr s) =
           (case fromisoformat s of None \<Rightarrow> Inl ValueError | Some d \<Rightarrow> Inr d) \<and>
         (\<forall>t. normalized_date_string s = Inr t \<longrightarrow> normalized_date_string t = Inr t)"
proof -
  have last: "last s \<in> set off" using assms(1,7) by simp
  then have "last s \<noteq> CHR ''Z''" using assms(8) by auto
  then have "replace_Z s = s" by (simp add: replace_Z_def endswith_Z_iff)
  then have r: "replace_Z s = b @ ''.'' @ fr @ sg # off" using assms(1) by simp
  have nl: "CHR 0x0A \<notin> set off" using assms(8) by auto
  have "CHR ''.'' \<notin> set off" using assms(8) by auto
  then have nf: "\<not> frac_then_sign off" by (rule no_dot_no_frac)
  have fr: "fr \<noteq> []" using assms(4) by auto
  have "normalized_date_string s =
      Inr (b @ ''.'' @ (if 6 \<le> length fr then take 6 fr
                        else fr @ replicate (6 - length fr) (CHR ''0'')) @ sg # off)"
    using r assms(2,3) fr assms(5,6,7) nl nf by (rule normalized_shape)
  then have n: "normalized_date_string s = Inr s" using assms(1,4) by simp
  then show ?thesis by simp
qed

theorem canonical_input_unchanged_witness:
  "normalized_date_string ''2024-01-15T10:30:00.123456+02:00'' = Inr ''2024-01-15T10:30:00.123456+02:00'' \<and>
   parse_iso_datetime example_fromisoformat (JStr ''2024-01-15T10:30:00.123456+02:00'') =
     Inr ''2024-01-15T10:30:00.123456+02:00''"
proof -
  have d: "example_fromisoformat ''2024-01-15T10:30:00.123456+02:00'' =
      Some ''2024-01-15T10:30:00.123456+02:00''"
    by (simp add: example_fromisoformat_def fits_def cmatch.simps)
  have "normalized_date_string ''2024-01-15T10:30:00.123456+02:00'' =
          Inr ''2024-01-15T10:30:00.123456+02:00'' \<and>
        parse_iso_datetime example_fromisoformat (JStr ''2024-01-15T10:30:00.123456+02:00'') =
          (case example_fromisoformat ''2024-01-15T10:30:00.123456+02:00'' of
             None \<Rightarrow> Inl ValueError | Some d \<Rightarrow> Inr d) \<and>
        (\<forall>t. normalized_date_string ''2024-01-15T10:30:00.123456+02:00'' = Inr t \<longrightarrow>
             normalized_date_string t = Inr t)"
    by (rule canonical_input_unchanged
          [where b = "''2024-01-15T10:30:00''" and fr = "''123456''" and sg = "CHR ''+''"
             and off = "''02:00''"])
       (simp_all add: cmatch.simps)
  then show ?thesis unfolding d by (simp del: parse_iso_datetime.simps)
qed

section \<open>Properties of the evaluation flow\<close>

lemma and_then_Inr [simp]: "and_then (Inr v) f = f v"
  by (simp add: and_then_def)

lemma and_then_Inl [simp]: "and_then (Inl e) f = Inl e"
  by (simp add: and_then_def)

lemma evaluate_failure_fields:
  "evaluate_failure msg =
     \<lparr>EvaluateSubmissionResponse.is_valid = JBool False, error_text = JStr msg,
      quality = JFloat 0, uniqueness = JFloat 0, score = JFloat 0, details = None\<rparr>"
  by (simp add: evaluate_failure_def)

text \<open>
  C3, as the code has it. Once the request has been sent, a response with a status other
  than 200 or a \<^verbatim>\<open>RequestException\<close> from the transport makes \<^verbatim>\<open>evaluate_submission\<close>
  return (it neither raises nor exits) a result with \<^verbatim>\<open>is_valid\<close> false, the three scores
  0.0 and no details. Its error text is the status message, which is never empty, or
  \<^verbatim>\<open>str(e)\<close> of the exception, copied as it is: the text is empty only when the exception
  has an empty text.
\<close>

theorem evaluate_submission_failure_returned:
  assumes "evaluate_payload source_data raw_input_data = Inr payload"
    and "(posted = Inr response \<and> status_code response \<noteq> 200 \<and>
          msg = ''Evaluate request failed with status '' @ str_int (status_code response)) \<or>
         (posted = Inl e \<and> isinstance_RequestException e \<and> msg = str_exc e)"
  shows "evaluate_submission posted source_data raw_input_data =
           Return \<lparr>EvaluateSubmissionResponse.is_valid = JBool False, error_text = JStr msg,
                   quality = JFloat 0, uniqueness = JFloat 0, score = JFloat 0, details = None\<rparr> \<and>
         (msg = [] \<longrightarrow> posted = Inl e \<and> str_exc e = [])"
  using assms by (auto simp add: evaluate_submission_def evaluate_failure_fields)

text \<open>
  C3 as stated fails on the transport path: a \<^verbatim>\<open>RequestException\<close> raised without a message
  has the empty text, and the returned error text is empty.
\<close>

theorem evaluate_submission_empty_error_text:
  "evaluate_submission (Inl (RequestException []))
     \<lparr>proof_token = JStr ''tok'', source_value = JInt 1, user_str = ''42'',
      submission_by = JStr ''42'', submission_date_iso = ''2024-01-15T10:30:00''\<rparr> (JDict []) =
   Return \<lparr>EvaluateSubmissionResponse.is_valid = JBool False, error_text = JStr [],
           quality = JFloat 0, uniqueness = JFloat 0, score = JFloat 0, details = None\<rparr>"
  by code_simp

lemma str_int_500: "str_int 500 = ''500''"
  by code_simp

theorem evaluate_submission_failure_returned_witness:
  "evaluate_submission
     (Inr \<lparr>status_code = 500, response_text = ''Internal Server Error'', json_result = Inl ''no body''\<rparr>)
     \<lparr>proof_token = JStr ''tok'', source_value = JInt 1, user_str = ''42'',
      submission_by = JStr ''42'', submission_date_iso = ''2024-01-15T10:30:00''\<rparr>
     (JDict [(''chats'', JList [JDict [(''chat_id'', JInt 7), (''contents'', JList [JStr ''hi''])]])]) =
   Return \<lparr>EvaluateSubmissionResponse.is_valid = JBool False,
           error_text = JStr ''Evaluate request failed with status 500'',
           quality = JFloat 0, uniqueness = JFloat 0, score = JFloat 0, details = None\<rparr> \<and>
   evaluate_submission (Inl (RequestException ''connection refused''))
     \<lparr>proof_token = JStr ''tok'', source_value = JInt 1, user_str = ''42'',
      submission_by = JStr ''42'', submission_date_iso = ''2024-01-15T10:30:00''\<rparr>
     (JDict []) =
   Return \<lparr>EvaluateSubmissionResponse.is_valid = JBool False,
           error_text = JStr ''connection refused'',
           quality = JFloat 0, uniqueness = JFloat 0, score = JFloat 0, details = None\<rparr>"
proof -
  let ?sd = "\<lparr>proof_token = JStr ''tok'', source_value = JInt 1, user_str = ''42'',
      submission_by = JStr ''42'', submission_date_iso = ''2024-01-15T10:30:00''\<rparr>"
  let ?raw = "JDict [(''chats'', JList [JDict [(''chat_id'', JInt 7), (''contents'', JList [JStr ''hi''])]])]"
  let ?resp = "\<lparr>status_code = 500, response_text = ''Internal Server Error'', json_result = Inl ''no body''\<rparr>"
  have p1: "evaluate_payload ?sd ?raw =
      Inr (JDict [(''ProofToken'', JStr ''tok''), (''DataSource'', JInt 1), (''SourceId'', JStr ''42''),
                  (''SubmittedBy'', JStr ''42''), (''SubmittedOn'', JStr ''2024-01-15T10:30:00''),
                  (''SubmissionToken'', JStr []),
                  (''Chats'', JList [JDict [(''ChatId'', JInt 7), (''Contents'', JList [JStr ''hi''])]])])"
    by (simp add: evaluate_payload_def payload_chat_def)
  have p2: "evaluate_payload ?sd (JDict []) =
      Inr (JDict [(''ProofToken'', JStr ''tok''), (''DataSource'', JInt 1), (''SourceId'', JStr ''42''),
                  (''SubmittedBy'', JStr ''42''), (''SubmittedOn'', JStr ''2024-01-15T10:30:00''),
                  (''SubmissionToken'', JStr []), (''Chats'', JList [])])"
    by (simp add: evaluate_payload_def)
  have h1: "(Inr ?resp = Inr ?resp \<and> status_code ?resp \<noteq> 200 \<and>
          ''Evaluate request failed with status 500'' =
            ''Evaluate request failed with status '' @ str_int (status_code ?resp)) \<or>
         (Inr ?resp = Inl KeyError \<and> isinstance_RequestException KeyError \<and>
          ''Evaluate request failed with status 500'' = str_exc KeyError)"
    by (simp add: str_int_500)
  have h2: "(Inl (RequestException ''connection refused'') = Inr ?resp \<and> status_code ?resp \<noteq> 200 \<and>
          ''connection refused'' =
            ''Evaluate request failed with status '' @ str_int (status_code ?resp)) \<or>
         (Inl (RequestException ''connection refused'') = Inl (RequestException ''connection refused'') \<and>
          isinstance_RequestException (RequestException ''connection refused'') \<and>
          ''connection refused'' = str_exc (RequestException ''connection refused''))"
    by simp
  show ?thesis
    using evaluate_submission_failure_returned [OF p1 h1, THEN conjunct1]
          evaluate_submission_failure_returned [OF p2 h2, THEN conjunct1]
    by (rule conjI)
qed

lemma py_get_dict [simp]: "py_get (JDict kvs) k d = Inr (dict_get kvs k d)"
  by (simp add: dict_get_def)

declare py_get.simps(1) [simp del]

lemma dict_get_absent: "map_of kvs k = None \<Longrightarrow> dict_get kvs k d = d"
  by (simp add: dict_get_def)

lemma dict_get_present: "map_of kvs k = Some v \<Longrightarrow> dict_get kvs k d = v"
  by (simp add: dict_get_def)

lemma map_of_without:
  "map_of (filter (\<lambda>kv. fst kv \<noteq> k) kvs) k' = (if k' = k then None else map_of kvs k')"
  by (induction kvs) auto

lemma dict_get_without:
  "k' \<noteq> k \<Longrightarrow> dict_get (filter (\<lambda>kv. fst kv \<noteq> k) kvs) k' d = dict_get kvs k' d"
  by (simp add: dict_get_def map_of_without)

lemma evaluate_submission_200:
  assumes "evaluate_payload source_data raw_input_data = Inr payload"
    and "status_code response = 200" "json_result response = Inr j"
  shows "evaluate_submission (Inr response) source_data raw_input_data =
           (case evaluate_result j of
              Inl e \<Rightarrow> if isinstance_RequestException e
                       then Return (evaluate_failure (str_exc e)) else Raise e
            | Inr r \<Rightarrow> Return r)"
  using assms by (simp add: evaluate_submission_def response_json_def)

lemma evaluate_result_no_details:
  assumes "\<not> truthy (dict_get kvs ''details'' JNull)"
  shows "evaluate_result (JDict kvs) =
           Inr \<lparr>EvaluateSubmissionResponse.is_valid = dict_get kvs ''isValid'' (JBool False),
                error_text = dict_get kvs ''errorText'' (JStr []),
                quality = dict_get kvs ''quality'' (JFloat 0),
                uniqueness = dict_get kvs ''uniqueness'' (JFloat 0),
                score = dict_get kvs ''score'' (JFloat 0), details = None\<rparr>"
  using assms by (simp add: evaluate_result_def)

lemma evaluate_result_with_details:
  assumes "truthy (dict_get kvs ''details'' JNull)"
    and "evaluation_details (dict_get kvs ''details'' JNull) = Inr d"
  shows "evaluate_result (JDict kvs) =
           Inr \<lparr>EvaluateSubmissionResponse.is_valid = dict_get kvs ''isValid'' (JBool False),
                error_text = dict_get kvs ''errorText'' (JStr []),
                quality = dict_get kvs ''quality'' (JFloat 0),
                uniqueness = dict_get kvs ''uniqueness'' (JFloat 0),
                score = dict_get kvs ''score'' (JFloat 0), details = Some d\<rparr>"
  using assms by (simp add: evaluate_result_def)

lemma evaluation_details_dict:
  "evaluation_details (JDict dkvs) =
     and_then (py_iter (dict_get dkvs ''chatSummaries'' (JList []))) (\<lambda>summaries.
     and_then (map_exc chat_evaluation_summary summaries) (\<lambda>chat_summaries.
       Inr \<lparr>total_messages = dict_get dkvs ''totalMessages'' (JInt 0),
            unique_messages = dict_get dkvs ''uniqueMessages'' (JInt 0),
            llm_reasoning = dict_get dkvs ''llmReasoning'' JNull,
            chat_summaries = chat_summaries\<rparr>))"
  by (simp add: evaluation_details_def)

text \<open>
  C6. On a 200 response whose body is an object without the key \<^verbatim>\<open>details\<close> the result has
  no details; when \<^verbatim>\<open>details\<close> is an object whose \<^verbatim>\<open>chatSummaries\<close> is the empty array the
  result has details, and their list of summaries is empty.
\<close>

theorem evaluate_details_optional:
  assumes "evaluate_payload source_data raw_input_data = Inr payload"
    and "status_code response = 200" "json_result response = Inr (JDict kvs)"
  shows "(map_of kvs ''details'' = None \<longrightarrow>
            evaluate_submission (Inr response) source_data raw_input_data =
              Return \<lparr>EvaluateSubmissionResponse.is_valid = dict_get kvs ''isValid'' (JBool False),
                      error_text = dict_get kvs ''errorText'' (JStr []),
                      quality = dict_get kvs ''quality'' (JFloat 0),
                      uniqueness = dict_get kvs ''uniqueness'' (JFloat 0),
                      score = dict_get kvs ''score'' (JFloat 0), details = None\<rparr>) \<and>
         (map_of kvs ''details'' = Some (JDict dkvs) \<and>
          map_of dkvs ''chatSummaries'' = Some (JList []) \<longrightarrow>
            evaluate_submission (Inr response) source_data raw_input_data =
              Return \<lparr>EvaluateSubmissionResponse.is_valid = dict_get kvs ''isValid'' (JBool False),
                      error_text = dict_get kvs ''errorText'' (JStr []),
                      quality = dict_get kvs ''quality'' (JFloat 0),
                      uniqueness = dict_get kvs ''uniqueness'' (JFloat 0),
                      score = dict_get kvs ''score'' (JFloat 0),
                      details = Some \<lparr>total_messages = dict_get dkvs ''totalMessages'' (JInt 0),
                                     unique_messages = dict_get dkvs ''uniqueMessages'' (JInt 0),
                                     llm_reasoning = dict_get dkvs ''llmReasoning'' JNull,
                                     chat_summaries = []\<rparr>\<rparr>)"
proof (intro conjI impI)
  assume "map_of kvs ''details'' = None"
  then have "\<not> truthy (dict_get kvs ''details'' JNull)" by (simp add: dict_get_absent)
  then show "evaluate_submission (Inr response) source_data raw_input_data =
      Return \<lparr>EvaluateSubmissionResponse.is_valid = dict_get kvs ''isValid'' (JBool False),
              error_text = dict_get kvs ''errorText'' (JStr []),
              quality = dict_get kvs ''quality'' (JFloat 0),
              uniqueness = dict_get kvs ''uniqueness'' (JFloat 0),
              score = dict_get kvs ''score'' (JFloat 0), details = None\<rparr>"
    unfolding evaluate_submission_200 [OF assms] by (simp add: evaluate_result_no_details)
next
  assume h: "map_of kvs ''details'' = Some (JDict dkvs) \<and>
    map_of dkvs ''chatSummaries'' = Some (JList [])"
  then have g: "dict_get kvs ''details'' JNull = JDict dkvs" by (simp add: dict_get_present)
  from h have "dkvs \<noteq> []" by auto
  then have t: "truthy (dict_get kvs ''details'' JNull)" unfolding g by simp
  from h have "dict_get dkvs ''chatSummaries'' (JList []) = JList []"
    by (simp add: dict_get_present)
  then have d: "evaluation_details (dict_get kvs ''details'' JNull) =
      Inr \<lparr>total_messages = dict_get dkvs ''totalMessages'' (JInt 0),
           unique_messages = dict_get dkvs ''uniqueMessages'' (JInt 0),
           llm_reasoning = dict_get dkvs ''llmReasoning'' JNull,
           chat_summaries = []\<rparr>"
    unfolding g evaluation_details_dict by simp
  show "evaluate_submission (Inr response) source_data raw_input_data =
      Return \<lparr>EvaluateSubmissionResponse.is_valid = dict_get kvs ''isValid'' (JBool False),
              error_text = dict_get kvs ''errorText'' (JStr []),
              quality = dict_get kvs ''quality'' (JFloat 0),
              uniqueness = dict_get kvs ''uniqueness'' (JFloat 0),
              score = dict_get kvs ''score'' (JFloat 0),
              details = Some \<lparr>total_messages = dict_get dkvs ''totalMessages'' (JInt 0),
                             unique_messages = dict_get dkvs ''uniqueMessages'' (JInt 0),
                             llm_reasoning = dict_get dkvs ''llmReasoning'' JNull,
                             chat_summaries = []\<rparr>\<rparr>"
    unfolding evaluate_submission_200 [OF assms] evaluate_result_with_details [OF t d] by simp
qed


lemma example_payload:
  "evaluate_payload
     \<lparr>proof_token = JStr ''tok'', source_value = JInt 1, user_str = ''42'',
      submission_by = JStr ''42'', submission_date_iso = ''2024-01-15T10:30:00''\<rparr> (JDict []) =
   Inr (JDict [(''ProofToken'', JStr ''tok''), (''DataSource'', JInt 1), (''SourceId'', JStr ''42''),
               (''SubmittedBy'', JStr ''42''), (''SubmittedOn'', JStr ''2024-01-15T10:30:00''),
               (''SubmissionToken'', JStr []), (''Chats'', JList [])])"
  by (simp add: evaluate_payload_def dict_get_def)

theorem evaluate_details_optional_witness:
  "evaluate_submission
     (Inr \<lparr>status_code = 200, response_text = [], json_result = Inr (JDict [(''isValid'', JBool True)])\<rparr>)
     \<lparr>proof_token = JStr ''tok'', source_value = JInt 1, user_str = ''42'',
      submission_by = JStr ''42'', submission_date_iso = ''2024-01-15T10:30:00''\<rparr> (JDict []) =
   Return \<lparr>EvaluateSubmissionResponse.is_valid = JBool True, error_text = JStr [],
           quality = JFloat 0, uniqueness = JFloat 0, score = JFloat 0, details = None\<rparr> \<and>
   evaluate_submission
     (Inr \<lparr>status_code = 200, response_text = [],
           json_result = Inr (JDict [(''isValid'', JBool True),
                                     (''details'', JDict [(''chatSummaries'', JList [])])])\<rparr>)
     \<lparr>proof_token = JStr ''tok'', source_value = JInt 1, user_str = ''42'',
      submission_by = JStr ''42'', submission_date_iso = ''2024-01-15T10:30:00''\<rparr> (JDict []) =
   Return \<lparr>EvaluateSubmissionResponse.is_valid = JBool True, error_text = JStr [],
           quality = JFloat 0, uniqueness = JFloat 0, score = JFloat 0,
           details = Some \<lparr>total_messages = JInt 0, unique_messages = JInt 0,
                          llm_reasoning = JNull, chat_summaries = []\<rparr>\<rparr>"
proof -
  let ?r1 = "\<lparr>status_code = 200, response_text = [],
              json_result = Inr (JDict [(''isValid'', JBool True)])\<rparr>"
  let ?r2 = "\<lparr>status_code = 200, response_text = [],
              json_result = Inr (JDict [(''isValid'', JBool True),
                                        (''details'', JDict [(''chatSummaries'', JList [])])])\<rparr>"
  have a1: "status_code ?r1 = 200" and b1: "json_result ?r1 = Inr (JDict [(''isValid'', JBool True)])"
    by simp_all
  have a2: "status_code ?r2 = 200"
    and b2: "json_result ?r2 = Inr (JDict [(''isValid'', JBool True),
                                           (''details'', JDict [(''chatSummaries'', JList [])])])"
    by simp_all
  note t1 = evaluate_details_optional [OF example_payload a1 b1, THEN conjunct1, THEN mp]
  note t2 = evaluate_details_optional [where dkvs = "[(''chatSummaries'', JList [])]",
              OF example_payload a2 b2, THEN conjunct2, THEN mp]
  have "map_of [(''isValid'', JBool True)] ''details'' = None" by simp
  from t1 [OF this] have c1: "evaluate_submission (Inr ?r1)
     \<lparr>proof_token = JStr ''tok'', source_value = JInt 1, user_str = ''42'',
      submission_by = JStr ''42'', submission_date_iso = ''2024-01-15T10:30:00''\<rparr> (JDict []) =
   Return \<lparr>EvaluateSubmissionResponse.is_valid = JBool True, error_text = JStr [],
           quality = JFloat 0, uniqueness = JFloat 0, score = JFloat 0, details = None\<rparr>"
    by (simp add: dict_get_def)
  have "map_of [(''isValid'', JBool True), (''details'', JDict [(''chatSummaries'', JList [])])]
          ''details'' = Some (JDict [(''chatSummaries'', JList [])]) \<and>
        map_of [(''chatSummaries'', JList [])] ''chatSummaries'' = Some (JList [])"
    by simp
  from t2 [OF this] have c2: "evaluate_submission (Inr ?r2)
     \<lparr>proof_token = JStr ''tok'', source_value = JInt 1, user_str = ''42'',
      submission_by = JStr ''42'', submission_date_iso = ''2024-01-15T10:30:00''\<rparr> (JDict []) =
   Return \<lparr>EvaluateSubmissionResponse.is_valid = JBool True, error_text = JStr [],
           quality = JFloat 0, uniqueness = JFloat 0, score = JFloat 0,
           details = Some \<lparr>total_messages = JInt 0, unique_messages = JInt 0,
                          llm_reasoning = JNull, chat_summaries = []\<rparr>\<rparr>"
    by (simp add: dict_get_def)
  from c1 c2 show ?thesis by (rule conjI)
qed

text \<open>
  C9. A \<^verbatim>\<open>details\<close> key bound to \<^verbatim>\<open>null\<close> or to the empty object is treated as a missing
  key: the result has no details, and it is the very result obtained from the same body
  with the key removed.
\<close>

theorem falsy_details_like_missing:
  assumes "evaluate_payload source_data raw_input_data = Inr payload"
    and "status_code response = 200" "json_result response = Inr (JDict kvs)"
    and "map_of kvs ''details'' = Some JNull \<or> map_of kvs ''details'' = Some (JDict [])"
  shows "evaluate_submission (Inr response) source_data raw_input_data =
           Return \<lparr>EvaluateSubmissionResponse.is_valid = dict_get kvs ''isValid'' (JBool False),
                   error_text = dict_get kvs ''errorText'' (JStr []),
                   quality = dict_get kvs ''quality'' (JFloat 0),
                   uniqueness = dict_get kvs ''uniqueness'' (JFloat 0),
                   score = dict_get kvs ''score'' (JFloat 0), details = None\<rparr> \<and>
         evaluate_submission (Inr response) source_data raw_input_data =
           evaluate_submission
             (Inr (response\<lparr>json_result :=
                     Inr (JDict (filter (\<lambda>kv. fst kv \<noteq> ''details'') kvs))\<rparr>))
             source_data raw_input_data"
proof -
  let ?kvs' = "filter (\<lambda>kv. fst kv \<noteq> ''details'') kvs"
  let ?response' = "response\<lparr>json_result := Inr (JDict ?kvs')\<rparr>"
  have f: "\<not> truthy (dict_get kvs ''details'' JNull)"
    using assms(4) by (auto simp add: dict_get_def)
  have f': "\<not> truthy (dict_get ?kvs' ''details'' JNull)"
    by (simp add: dict_get_def map_of_without)
  have a': "status_code ?response' = 200" using assms(2) by simp
  have b': "json_result ?response' = Inr (JDict ?kvs')" by simp
  have one: "evaluate_submission (Inr response) source_data raw_input_data =
      Return \<lparr>EvaluateSubmissionResponse.is_valid = dict_get kvs ''isValid'' (JBool False),
              error_text = dict_get kvs ''errorText'' (JStr []),
              quality = dict_get kvs ''quality'' (JFloat 0),
              uniqueness = dict_get kvs ''uniqueness'' (JFloat 0),
              score = dict_get kvs ''score'' (JFloat 0), details = None\<rparr>"
    unfolding evaluate_submission_200 [OF assms(1-3)] evaluate_result_no_details [OF f] by simp
  have two: "evaluate_submission (Inr ?response') source_data raw_input_data =
      Return \<lparr>EvaluateSubmissionResponse.is_valid = dict_get kvs ''isValid'' (JBool False),
              error_text = dict_get kvs ''errorText'' (JStr []),
              quality = dict_get kvs ''quality'' (JFloat 0),
              uniqueness = dict_get kvs ''uniqueness'' (JFloat 0),
              score = dict_get kvs ''score'' (JFloat 0), details = None\<rparr>"
    unfolding evaluate_submission_200 [OF assms(1) a' b'] evaluate_result_no_details [OF f']
    by (simp add: dict_get_without)
  from one two show ?thesis by simp
qed

theorem falsy_details_like_missing_witness:
  "evaluate_submission
     (Inr \<lparr>status_code = 200, response_text = [],
           json_result = Inr (JDict [(''isValid'', JBool True), (''details'', JDict [])])\<rparr>)
     \<lparr>proof_token = JStr ''tok'', source_value = JInt 1, user_str = ''42'',
      submission_by = JStr ''42'', submission_date_iso = ''2024-01-15T10:30:00''\<rparr> (JDict []) =
   Return \<lparr>EvaluateSubmissionResponse.is_valid = JBool True, error_text = JStr [],
           quality = JFloat 0, uniqueness = JFloat 0, score = JFloat 0, details = None\<rparr>"
proof -
  let ?r = "\<lparr>status_code = 200, response_text = [],
             json_result = Inr (JDict [(''isValid'', JBool True), (''details'', JDict [])])\<rparr>"
  have a: "status_code ?r = 200"
    and b: "json_result ?r = Inr (JDict [(''isValid'', JBool True), (''details'', JDict [])])"
    by simp_all
  have c: "map_of [(''isValid'', JBool True), (''details'', JDict [])] ''details'' = Some JNull \<or>
           map_of [(''isValid'', JBool True), (''details'', JDict [])] ''details'' = Some (JDict [])"
    by simp
  from falsy_details_like_missing [OF example_payload a b c, THEN conjunct1]
  show ?thesis by (simp add: dict_get_def)
qed

section \<open>Properties of the historical-data and submission flows\<close>



lemma historical_200:
  assumes "status_code response = 200" "json_result response = Inr j"
  shows "get_submission_historical_data fromisoformat (Inr response) =
           (case historical_result fromisoformat j of
              Inl e \<Rightarrow>
                if isinstance_ValueError e
                then ([LogError ''Error during parsing Get_historical_chats status: {e}''
                         [ArgExc e]], Exit 1)
                else if isinstance_RequestException e
                then ([LogError ''get_historical_chats:'' [ArgExc e]], Exit 1)
                else ([], Raise e)
            | Inr r \<Rightarrow> ([], Return r))"
  using assms by (simp add: get_submission_historical_data_def response_json_def)

lemma historical_result_dict:
  assumes "chat_histories_of fromisoformat (JDict kvs) = Inr chs"
    and "last_submission_of fromisoformat (dict_get kvs ''lastSubmission'' JNull) = Inr ls"
  shows "historical_result fromisoformat (JDict kvs) =
           Inr \<lparr>SubmissionHistory.is_valid = dict_get kvs ''isValid'' (JBool False),
                error_text = dict_get kvs ''errorText'' (JStr []),
                last_submission = ls, chat_histories = chs\<rparr>"
  using assms by (simp add: historical_result_def)

lemma historical_returns:
  assumes "status_code response = 200" "json_result response = Inr (JDict kvs)"
    and "chat_histories_of fromisoformat (JDict kvs) = Inr chs"
    and "last_submission_of fromisoformat (dict_get kvs ''lastSubmission'' JNull) = Inr ls"
  shows "get_submission_historical_data fromisoformat (Inr response) =
           ([], Return \<lparr>SubmissionHistory.is_valid = dict_get kvs ''isValid'' (JBool False),
                        error_text = dict_get kvs ''errorText'' (JStr []),
                        last_submission = ls, chat_histories = chs\<rparr>)"
  unfolding historical_200 [OF assms(1,2)] historical_result_dict [OF assms(3,4)] by simp

lemma historical_result_chats_fail:
  "chat_histories_of fromisoformat j = Inl err \<Longrightarrow> historical_result fromisoformat j = Inl err"
  by (simp add: historical_result_def)

lemma last_submission_of_falsy: "\<not> truthy v \<Longrightarrow> last_submission_of fromisoformat v = Inr None"
  by (simp add: last_submission_of_def)







lemma example_not_a_date:
  "parse_iso_datetime example_fromisoformat (JStr ''not-a-date'') = Inl ValueError"
  by code_simp


lemma submission_chat_dict:
  "submission_chat fromisoformat (JDict ckvs) =
     and_then (py_subscript (JDict ckvs) ''chatStartOn'') (\<lambda>start_json.
     and_then (parse_iso_datetime fromisoformat start_json) (\<lambda>start_on.
     and_then (py_subscript (JDict ckvs) ''chatEndedOn'') (\<lambda>ended_json.
     and_then (parse_iso_datetime fromisoformat ended_json) (\<lambda>ended_on.
       Inr \<lparr>participant_count = dict_get ckvs ''participantCount'' (JInt 0),
            chat_count = dict_get ckvs ''chatCount'' (JInt 0),
            chat_length = dict_get ckvs ''chatLength'' (JInt 0),
            chat_start_on = start_on, chat_ended_on = ended_on\<rparr>))))"
  by (simp add: submission_chat_def)







lemma submit_data_200:
  assumes "status_code response = 200" "json_result response = Inr (JDict kvs)"
  shows "submit_data (Inr response) =
           ([], Return \<lparr>SubmitDataResponse.is_valid = dict_get kvs ''isValid'' (JBool False),
                        error_text = dict_get kvs ''errorText'' (JStr [])\<rparr>)"
  using assms by (simp add: submit_data_def response_json_def submit_data_result_def)

lemma chat_evaluation_summary_dict:
  "chat_evaluation_summary (JDict skvs) =
     Inr \<lparr>ChatEvaluationSummary.source_chat_id = dict_get skvs ''sourceChatId'' (JStr []),
          message_count = dict_get skvs ''messageCount'' (JInt 0),
          chat_quality = dict_get skvs ''chatQuality'' (JFloat 0),
          chat_uniqueness = dict_get skvs ''chatUniqueness'' (JFloat 0)\<rparr>"
  by (simp add: chat_evaluation_summary_def)

lemma chat_history_dict:
  "chat_history fromisoformat (JDict hkvs) =
     and_then (py_iter (dict_get hkvs ''chats'' (JList []))) (\<lambda>chats.
     and_then (map_exc (submission_chat fromisoformat) chats) (\<lambda>chat_list.
       Inr \<lparr>ChatHistory.source_chat_id = dict_get hkvs ''sourceChatId'' (JInt 0),
            chat_list = chat_list\<rparr>))"
  by (simp add: chat_history_def)

lemma chat_histories_of_dict:
  "chat_histories_of fromisoformat (JDict kvs) =
     and_then (py_iter (dict_get kvs ''chatHistories'' (JList []))) (\<lambda>entries.
       map_exc (chat_history fromisoformat) entries)"
  by (simp add: chat_histories_of_def)

lemma map_exc_fails:
  "x \<in> set xs \<Longrightarrow> f x = Inl e \<Longrightarrow> \<exists>e'. map_exc f xs = Inl e'"
  by (induction xs) (auto split: sum.splits)

lemma chat_history_fails:
  assumes "map_of hkvs ''chats'' = Some (JList cjs)" "c \<in> set cjs"
    and "submission_chat fromisoformat c = Inl e"
  shows "\<exists>e'. chat_history fromisoformat (JDict hkvs) = Inl e'"
proof -
  have "\<exists>e'. map_exc (submission_chat fromisoformat) cjs = Inl e'"
    using assms(2,3) by (rule map_exc_fails)
  then obtain e' where "map_exc (submission_chat fromisoformat) cjs = Inl e'" by (elim exE)
  with assms(1) show ?thesis by (simp add: chat_history_dict dict_get_present)
qed

lemma chat_histories_of_fails:
  assumes "map_of kvs ''chatHistories'' = Some (JList entries)" "h \<in> set entries"
    and "chat_history fromisoformat h = Inl e"
  shows "\<exists>e'. chat_histories_of fromisoformat (JDict kvs) = Inl e'"
proof -
  have "\<exists>e'. map_exc (chat_history fromisoformat) entries = Inl e'"
    using assms(2,3) by (rule map_exc_fails)
  then obtain e' where "map_exc (chat_history fromisoformat) entries = Inl e'" by (elim exE)
  with assms(1) show ?thesis by (simp add: chat_histories_of_dict dict_get_present)
qed

lemma historical_no_return:
  assumes "status_code response = 200" "json_result response = Inr j"
    and "chat_histories_of fromisoformat j = Inl e"
  shows "snd (get_submission_historical_data fromisoformat (Inr response)) \<noteq> Return r"
  unfolding historical_200 [OF assms(1,2)] historical_result_chats_fail [OF assms(3)]
  by simp

lemma submission_chat_no_start:
  "map_of ckvs ''chatStartOn'' = None \<Longrightarrow> submission_chat fromisoformat (JDict ckvs) = Inl KeyError"
  by (simp add: submission_chat_dict del: parse_iso_datetime.simps)

lemma submission_chat_start_fails:
  "map_of ckvs ''chatStartOn'' = Some v1 \<Longrightarrow> parse_iso_datetime fromisoformat v1 = Inl err1 \<Longrightarrow>
     submission_chat fromisoformat (JDict ckvs) = Inl err1"
  by (simp add: submission_chat_dict del: parse_iso_datetime.simps)

lemma submission_chat_no_end:
  "map_of ckvs ''chatStartOn'' = Some v1 \<Longrightarrow> parse_iso_datetime fromisoformat v1 = Inr d1 \<Longrightarrow>
   map_of ckvs ''chatEndedOn'' = None \<Longrightarrow>
     submission_chat fromisoformat (JDict ckvs) = Inl KeyError"
  by (simp add: submission_chat_dict del: parse_iso_datetime.simps)

lemma submission_chat_missing_timestamp:
  assumes "map_of ckvs ''chatStartOn'' = None \<or> map_of ckvs ''chatEndedOn'' = None"
  shows "\<exists>err. submission_chat fromisoformat (JDict ckvs) = Inl err"
proof (cases "map_of ckvs ''chatStartOn''")
  case None
  then show ?thesis by (simp add: submission_chat_no_start)
next
  case (Some v1)
  with assms have ended: "map_of ckvs ''chatEndedOn'' = None" by simp
  show ?thesis
  proof (cases "parse_iso_datetime fromisoformat v1")
    case (Inl err1)
    with Some show ?thesis by (simp add: submission_chat_start_fails)
  next
    case (Inr d1)
    with Some ended show ?thesis by (simp add: submission_chat_no_end)
  qed
qed

text \<open>
  C2 as stated fails: a chat entry of a historical-data response that lacks
  \<^verbatim>\<open>chatStartOn\<close> is read with a subscript, and the flow ends in a \<^verbatim>\<open>KeyError\<close>.
\<close>

theorem missing_chat_timestamp_raises:
  "get_submission_historical_data example_fromisoformat
     (Inr \<lparr>status_code = 200, response_text = [], json_result = Inr
       (JDict [(''isValid'', JBool True),
               (''chatHistories'', JList [JDict [(''sourceChatId'', JStr ''c1''),
                  (''chats'', JList [JDict [(''participantCount'', JInt 2),
                     (''chatEndedOn'', JStr ''2024-01-15T11:00:00'')]])]])])\<rparr>) =
   ([], Raise KeyError)"
  by code_simp

text \<open>
  C2, as the code has it. Every field read with \<^verbatim>\<open>get\<close> resolves to its default when the key
  is absent, and its absence never makes the decoding fail: \<^verbatim>\<open>isValid\<close> to false and
  \<^verbatim>\<open>errorText\<close> to the empty string in the three flows, whatever the other fields of the
  body are, as long as they decode; \<^verbatim>\<open>quality\<close>, \<^verbatim>\<open>uniqueness\<close>, \<^verbatim>\<open>score\<close>,
  \<^verbatim>\<open>chatQuality\<close> and \<^verbatim>\<open>chatUniqueness\<close> to 0.0; \<^verbatim>\<open>totalMessages\<close>, \<^verbatim>\<open>uniqueMessages\<close>,
  \<^verbatim>\<open>messageCount\<close>, \<^verbatim>\<open>participantCount\<close>, \<^verbatim>\<open>chatCount\<close> and \<^verbatim>\<open>chatLength\<close> to 0; the
  \<^verbatim>\<open>sourceChatId\<close> of a chat summary to the empty string; \<^verbatim>\<open>details\<close>, \<^verbatim>\<open>llmReasoning\<close>
  and \<^verbatim>\<open>lastSubmission\<close> to \<^verbatim>\<open>None\<close>; \<^verbatim>\<open>chatSummaries\<close>, \<^verbatim>\<open>chatHistories\<close> and \<^verbatim>\<open>chats\<close>
  to the empty list. A \<^verbatim>\<open>chatHistories\<close> entry decodes whether or not it has a
  \<^verbatim>\<open>sourceChatId\<close>. The two timestamps of a chat are required and have no default: a chat
  without \<^verbatim>\<open>chatStartOn\<close> or without \<^verbatim>\<open>chatEndedOn\<close> does not decode, and a 200 response
  with such a chat in it returns no result. The failure is a \<^verbatim>\<open>KeyError\<close> when
  \<^verbatim>\<open>chatStartOn\<close> is missing, and when \<^verbatim>\<open>chatEndedOn\<close> is missing and \<^verbatim>\<open>chatStartOn\<close>
  parses; \<^verbatim>\<open>chatStartOn\<close> is read and parsed first, so when it is present and does not parse
  the failure is that of its parsing, whether or not \<^verbatim>\<open>chatEndedOn\<close> is there.
\<close>

theorem absent_fields_default:
  "(map_of kvs k = None \<longrightarrow> dict_get kvs k dflt = dflt) \<and>
   (status_code response = 200 \<and> json_result response = Inr (JDict kvs) \<longrightarrow>
      submit_data (Inr response) =
        ([], Return \<lparr>SubmitDataResponse.is_valid = dict_get kvs ''isValid'' (JBool False),
                     error_text = dict_get kvs ''errorText'' (JStr [])\<rparr>)) \<and>
   (evaluate_payload source_data raw_input_data = Inr payload \<and> status_code response = 200 \<and>
    json_result response = Inr (JDict kvs) \<and> map_of kvs ''details'' = None \<longrightarrow>
      evaluate_submission (Inr response) source_data raw_input_data =
        Return \<lparr>EvaluateSubmissionResponse.is_valid = dict_get kvs ''isValid'' (JBool False),
                error_text = dict_get kvs ''errorText'' (JStr []),
                quality = dict_get kvs ''quality'' (JFloat 0),
                uniqueness = dict_get kvs ''uniqueness'' (JFloat 0),
                score = dict_get kvs ''score'' (JFloat 0), details = None\<rparr>) \<and>
   (evaluate_payload source_data raw_input_data = Inr payload \<and> status_code response = 200 \<and>
    json_result response = Inr (JDict kvs) \<and> map_of kvs ''details'' = Some dj \<and> truthy dj \<and>
    evaluation_details dj = Inr ed \<longrightarrow>
      evaluate_submission (Inr response) source_data raw_input_data =
        Return \<lparr>EvaluateSubmissionResponse.is_valid = dict_get kvs ''isValid'' (JBool False),
                error_text = dict_get kvs ''errorText'' (JStr []),
                quality = dict_get kvs ''quality'' (JFloat 0),
                uniqueness = dict_get kvs ''uniqueness'' (JFloat 0),
                score = dict_get kvs ''score'' (JFloat 0), details = Some ed\<rparr>) \<and>
   (evaluate_payload source_data raw_input_data = Inr payload \<and> status_code response = 200 \<and>
    json_result response = Inr (JDict kvs) \<and> map_of kvs ''details'' = Some dj \<and> \<not> truthy dj \<longrightarrow>
      evaluate_submission (Inr response) source_data raw_input_data =
        Return \<lparr>EvaluateSubmissionResponse.is_valid = dict_get kvs ''isValid'' (JBool False),
                error_text = dict_get kvs ''errorText'' (JStr []),
                quality = dict_get kvs ''quality'' (JFloat 0),
                uniqueness = dict_get kvs ''uniqueness'' (JFloat 0),
                score = dict_get kvs ''score'' (JFloat 0), details = None\<rparr>) \<and>
   (map_of dkvs ''chatSummaries'' = None \<longrightarrow>
      evaluation_details (JDict dkvs) =
        Inr \<lparr>total_messages = dict_get dkvs ''totalMessages'' (JInt 0),
             unique_messages = dict_get dkvs ''uniqueMessages'' (JInt 0),
             llm_reasoning = dict_get dkvs ''llmReasoning'' JNull, chat_summaries = []\<rparr>) \<and>
   (map_of dkvs ''chatSummaries'' = Some (JList sjs) \<and>
    map_exc chat_evaluation_summary sjs = Inr cs \<longrightarrow>
      evaluation_details (JDict dkvs) =
        Inr \<lparr>total_messages = dict_get dkvs ''totalMessages'' (JInt 0),
             unique_messages = dict_get dkvs ''uniqueMessages'' (JInt 0),
             llm_reasoning = dict_get dkvs ''llmReasoning'' JNull, chat_summaries = cs\<rparr>) \<and>
   chat_evaluation_summary (JDict skvs) =
     Inr \<lparr>ChatEvaluationSummary.source_chat_id = dict_get skvs ''sourceChatId'' (JStr []),
          message_count = dict_get skvs ''messageCount'' (JInt 0),
          chat_quality = dict_get skvs ''chatQuality'' (JFloat 0),
          chat_uniqueness = dict_get skvs ''chatUniqueness'' (JFloat 0)\<rparr> \<and>
   (status_code response = 200 \<and> json_result response = Inr (JDict kvs) \<and>
    chat_histories_of fromisoformat (JDict kvs) = Inr chs \<and>
    last_submission_of fromisoformat (dict_get kvs ''lastSubmission'' JNull) = Inr ls \<longrightarrow>
      get_submission_historical_data fromisoformat (Inr response) =
        ([], Return \<lparr>SubmissionHistory.is_valid = dict_get kvs ''isValid'' (JBool False),
                     error_text = dict_get kvs ''errorText'' (JStr []),
                     last_submission = ls, chat_histories = chs\<rparr>)) \<and>
   (map_of kvs ''lastSubmission'' = None \<longrightarrow>
      last_submission_of fromisoformat (dict_get kvs ''lastSubmission'' JNull) = Inr None) \<and>
   (map_of kvs ''chatHistories'' = None \<longrightarrow> chat_histories_of fromisoformat (JDict kvs) = Inr []) \<and>
   (map_of hkvs ''chats'' = None \<longrightarrow>
      (\<exists>sid. chat_history fromisoformat (JDict hkvs) =
               Inr \<lparr>ChatHistory.source_chat_id = sid, chat_list = []\<rparr>)) \<and>
   (map_of hkvs ''chats'' = Some (JList cjs) \<and>
    map_exc (submission_chat fromisoformat) cjs = Inr cl \<longrightarrow>
      (\<exists>sid. chat_history fromisoformat (JDict hkvs) =
               Inr \<lparr>ChatHistory.source_chat_id = sid, chat_list = cl\<rparr>)) \<and>
   (map_of ckvs ''chatStartOn'' = Some v1 \<and> parse_iso_datetime fromisoformat v1 = Inr d1 \<and>
    map_of ckvs ''chatEndedOn'' = Some v2 \<and> parse_iso_datetime fromisoformat v2 = Inr d2 \<longrightarrow>
      submission_chat fromisoformat (JDict ckvs) =
        Inr \<lparr>participant_count = dict_get ckvs ''participantCount'' (JInt 0),
             chat_count = dict_get ckvs ''chatCount'' (JInt 0),
             chat_length = dict_get ckvs ''chatLength'' (JInt 0),
             chat_start_on = d1, chat_ended_on = d2\<rparr>) \<and>
   (map_of ckvs ''chatStartOn'' = None \<or> map_of ckvs ''chatEndedOn'' = None \<longrightarrow>
      (\<exists>err. submission_chat fromisoformat (JDict ckvs) = Inl err)) \<and>
   (map_of ckvs ''chatStartOn'' = None \<longrightarrow>
      submission_chat fromisoformat (JDict ckvs) = Inl KeyError) \<and>
   (map_of ckvs ''chatStartOn'' = Some v1 \<and> parse_iso_datetime fromisoformat v1 = Inr d1 \<and>
    map_of ckvs ''chatEndedOn'' = None \<longrightarrow>
      submission_chat fromisoformat (JDict ckvs) = Inl KeyError) \<and>
   (map_of ckvs ''chatStartOn'' = Some v1 \<and> parse_iso_datetime fromisoformat v1 = Inl err1 \<longrightarrow>
      submission_chat fromisoformat (JDict ckvs) = Inl err1) \<and>
   (status_code response = 200 \<and> json_result response = Inr (JDict kvs) \<and>
    map_of kvs ''chatHistories'' = Some (JList entries) \<and> JDict hkvs \<in> set entries \<and>
    map_of hkvs ''chats'' = Some (JList cjs) \<and> JDict ckvs \<in> set cjs \<and>
    (map_of ckvs ''chatStartOn'' = None \<or> map_of ckvs ''chatEndedOn'' = None) \<longrightarrow>
      (\<forall>r. snd (get_submission_historical_data fromisoformat (Inr response)) \<noteq> Return r))"
proof (intro conjI)
  show "(map_of kvs k = None \<longrightarrow> dict_get kvs k dflt = dflt)"
    by (simp add: dict_get_absent)
  show "(status_code response = 200 \<and> json_result response = Inr (JDict kvs) \<longrightarrow>
        submit_data (Inr response) =
          ([], Return \<lparr>SubmitDataResponse.is_valid = dict_get kvs ''isValid'' (JBool False),
                       error_text = dict_get kvs ''errorText'' (JStr [])\<rparr>))"
    by (simp add: submit_data_200)
  show "(evaluate_payload source_data raw_input_data = Inr payload \<and> status_code response = 200 \<and>
      json_result response = Inr (JDict kvs) \<and> map_of kvs ''details'' = None \<longrightarrow>
        evaluate_submission (Inr response) source_data raw_input_data =
          Return \<lparr>EvaluateSubmissionResponse.is_valid = dict_get kvs ''isValid'' (JBool False),
                  error_text = dict_get kvs ''errorText'' (JStr []),
                  quality = dict_get kvs ''quality'' (JFloat 0),
                  uniqueness = dict_get kvs ''uniqueness'' (JFloat 0),
                  score = dict_get kvs ''score'' (JFloat 0), details = None\<rparr>)"
    by (simp add: evaluate_submission_200 dict_get_absent evaluate_result_no_details)
  show "(evaluate_payload source_data raw_input_data = Inr payload \<and> status_code response = 200 \<and>
      json_result response = Inr (JDict kvs) \<and> map_of kvs ''details'' = Some dj \<and> truthy dj \<and>
      evaluation_details dj = Inr ed \<longrightarrow>
        evaluate_submission (Inr response) source_data raw_input_data =
          Return \<lparr>EvaluateSubmissionResponse.is_valid = dict_get kvs ''isValid'' (JBool False),
                  error_text = dict_get kvs ''errorText'' (JStr []),
                  quality = dict_get kvs ''quality'' (JFloat 0),
                  uniqueness = dict_get kvs ''uniqueness'' (JFloat 0),
                  score = dict_get kvs ''score'' (JFloat 0), details = Some ed\<rparr>)"
    by (simp add: evaluate_submission_200 dict_get_present evaluate_result_with_details)
  show "(evaluate_payload source_data raw_input_data = Inr payload \<and> status_code response = 200 \<and>
      json_result response = Inr (JDict kvs) \<and> map_of kvs ''details'' = Some dj \<and> \<not> truthy dj \<longrightarrow>
        evaluate_submission (Inr response) source_data raw_input_data =
          Return \<lparr>EvaluateSubmissionResponse.is_valid = dict_get kvs ''isValid'' (JBool False),
                  error_text = dict_get kvs ''errorText'' (JStr []),
                  quality = dict_get kvs ''quality'' (JFloat 0),
                  uniqueness = dict_get kvs ''uniqueness'' (JFloat 0),
                  score = dict_get kvs ''score'' (JFloat 0), details = None\<rparr>)"
    by (simp add: evaluate_submission_200 dict_get_present evaluate_result_no_details)
  show "(map_of dkvs ''chatSummaries'' = None \<longrightarrow>
        evaluation_details (JDict dkvs) =
          Inr \<lparr>total_messages = dict_get dkvs ''totalMessages'' (JInt 0),
               unique_messages = dict_get dkvs ''uniqueMessages'' (JInt 0),
               llm_reasoning = dict_get dkvs ''llmReasoning'' JNull, chat_summaries = []\<rparr>)"
    by (simp add: evaluation_details_dict dict_get_absent)
  show "(map_of dkvs ''chatSummaries'' = Some (JList sjs) \<and>
      map_exc chat_evaluation_summary sjs = Inr cs \<longrightarrow>
        evaluation_details (JDict dkvs) =
          Inr \<lparr>total_messages = dict_get dkvs ''totalMessages'' (JInt 0),
               unique_messages = dict_get dkvs ''uniqueMessages'' (JInt 0),
               llm_reasoning = dict_get dkvs ''llmReasoning'' JNull, chat_summaries = cs\<rparr>)"
    by (simp add: evaluation_details_dict dict_get_present)
  show "chat_evaluation_summary (JDict skvs) =
       Inr \<lparr>ChatEvaluationSummary.source_chat_id = dict_get skvs ''sourceChatId'' (JStr []),
            message_count = dict_get skvs ''messageCount'' (JInt 0),
            chat_quality = dict_get skvs ''chatQuality'' (JFloat 0),
            chat_uniqueness = dict_get skvs ''chatUniqueness'' (JFloat 0)\<rparr>"
    by (rule chat_evaluation_summary_dict)
  show "(status_code response = 200 \<and> json_result response = Inr (JDict kvs) \<and>
      chat_histories_of fromisoformat (JDict kvs) = Inr chs \<and>
      last_submission_of fromisoformat (dict_get kvs ''lastSubmission'' JNull) = Inr ls \<longrightarrow>
        get_submission_historical_data fromisoformat (Inr response) =
          ([], Return \<lparr>SubmissionHistory.is_valid = dict_get kvs ''isValid'' (JBool False),
                       error_text = dict_get kvs ''errorText'' (JStr []),
                       last_submission = ls, chat_histories = chs\<rparr>))"
    by (simp add: historical_returns)
  show "(map_of kvs ''lastSubmission'' = None \<longrightarrow>
      last_submission_of fromisoformat (dict_get kvs ''lastSubmission'' JNull) = Inr None)"
    by (simp add: dict_get_absent last_submission_of_falsy)
  show "(map_of kvs ''chatHistories'' = None \<longrightarrow> chat_histories_of fromisoformat (JDict kvs) = Inr [])"
    by (simp add: chat_histories_of_dict dict_get_absent)
  show "(map_of hkvs ''chats'' = None \<longrightarrow>
        (\<exists>sid. chat_history fromisoformat (JDict hkvs) =
                 Inr \<lparr>ChatHistory.source_chat_id = sid, chat_list = []\<rparr>))"
    by (simp add: chat_history_dict dict_get_absent)
  show "(map_of hkvs ''chats'' = Some (JList cjs) \<and>
      map_exc (submission_chat fromisoformat) cjs = Inr cl \<longrightarrow>
        (\<exists>sid. chat_history fromisoformat (JDict hkvs) =
                 Inr \<lparr>ChatHistory.source_chat_id = sid, chat_list = cl\<rparr>))"
    by (simp add: chat_history_dict dict_get_present)
  show "(map_of ckvs ''chatStartOn'' = Some v1 \<and> parse_iso_datetime fromisoformat v1 = Inr d1 \<and>
      map_of ckvs ''chatEndedOn'' = Some v2 \<and> parse_iso_datetime fromisoformat v2 = Inr d2 \<longrightarrow>
        submission_chat fromisoformat (JDict ckvs) =
          Inr \<lparr>participant_count = dict_get ckvs ''participantCount'' (JInt 0),
               chat_count = dict_get ckvs ''chatCount'' (JInt 0),
               chat_length = dict_get ckvs ''chatLength'' (JInt 0),
               chat_start_on = d1, chat_ended_on = d2\<rparr>)"
    by (simp add: submission_chat_dict del: parse_iso_datetime.simps)
  show "(map_of ckvs ''chatStartOn'' = None \<or> map_of ckvs ''chatEndedOn'' = None \<longrightarrow>
      (\<exists>err. submission_chat fromisoformat (JDict ckvs) = Inl err))"
    by (rule impI) (rule submission_chat_missing_timestamp)
  show "(map_of ckvs ''chatStartOn'' = None \<longrightarrow>
        submission_chat fromisoformat (JDict ckvs) = Inl KeyError)"
    by (simp add: submission_chat_no_start)
  show "(map_of ckvs ''chatStartOn'' = Some v1 \<and> parse_iso_datetime fromisoformat v1 = Inr d1 \<and>
      map_of ckvs ''chatEndedOn'' = None \<longrightarrow>
        submission_chat fromisoformat (JDict ckvs) = Inl KeyError)"
    by (simp add: submission_chat_no_end del: parse_iso_datetime.simps)
  show "(map_of ckvs ''chatStartOn'' = Some v1 \<and> parse_iso_datetime fromisoformat v1 = Inl err1 \<longrightarrow>
      submission_chat fromisoformat (JDict ckvs) = Inl err1)"
    by (simp add: submission_chat_start_fails del: parse_iso_datetime.simps)
  show "(status_code response = 200 \<and> json_result response = Inr (JDict kvs) \<and>
    map_of kvs ''chatHistories'' = Some (JList entries) \<and> JDict hkvs \<in> set entries \<and>
    map_of hkvs ''chats'' = Some (JList cjs) \<and> JDict ckvs \<in> set cjs \<and>
    (map_of ckvs ''chatStartOn'' = None \<or> map_of ckvs ''chatEndedOn'' = None) \<longrightarrow>
      (\<forall>r. snd (get_submission_historical_data fromisoformat (Inr response)) \<noteq> Return r))"
  proof (intro impI allI)
    fix r
    assume h: "status_code response = 200 \<and> json_result response = Inr (JDict kvs) \<and>
      map_of kvs ''chatHistories'' = Some (JList entries) \<and> JDict hkvs \<in> set entries \<and>
      map_of hkvs ''chats'' = Some (JList cjs) \<and> JDict ckvs \<in> set cjs \<and>
      (map_of ckvs ''chatStartOn'' = None \<or> map_of ckvs ''chatEndedOn'' = None)"
    then have m: "map_of ckvs ''chatStartOn'' = None \<or> map_of ckvs ''chatEndedOn'' = None"
      by simp
    have "\<exists>err. submission_chat fromisoformat (JDict ckvs) = Inl err"
      using m by (rule submission_chat_missing_timestamp)
    then obtain e1 where e1: "submission_chat fromisoformat (JDict ckvs) = Inl e1" by (elim exE)
    from h have c1: "map_of hkvs ''chats'' = Some (JList cjs)" and c2: "JDict ckvs \<in> set cjs"
      by simp_all
    have "\<exists>e'. chat_history fromisoformat (JDict hkvs) = Inl e'"
      using c1 c2 e1 by (rule chat_history_fails)
    then obtain e2 where e2: "chat_history fromisoformat (JDict hkvs) = Inl e2" by (elim exE)
    from h have k1: "map_of kvs ''chatHistories'' = Some (JList entries)"
      and k2: "JDict hkvs \<in> set entries" by simp_all
    have "\<exists>e'. chat_histories_of fromisoformat (JDict kvs) = Inl e'"
      using k1 k2 e2 by (rule chat_histories_of_fails)
    then obtain e3 where e3: "chat_histories_of fromisoformat (JDict kvs) = Inl e3" by (elim exE)
    from h have s1: "status_code response = 200" and s2: "json_result response = Inr (JDict kvs)"
      by simp_all
    show "snd (get_submission_historical_data fromisoformat (Inr response)) \<noteq> Return r"
      by (rule historical_no_return [OF s1 s2 e3])
  qed
qed

lemma example_chat_timestamps:
  "parse_iso_datetime example_fromisoformat (JStr ''2024-01-15T10:30:00Z'') =
     Inr ''2024-01-15T10:30:00+00:00''"
  "parse_iso_datetime example_fromisoformat (JStr ''2024-01-15T11:00:00.5+02:00'') =
     Inr ''2024-01-15T11:00:00.500000+02:00''"
  by code_simp+

theorem absent_fields_default_witness:
  "submit_data (Inr \<lparr>status_code = 200, response_text = [], json_result = Inr (JDict [])\<rparr>) =
     ([], Return \<lparr>SubmitDataResponse.is_valid = JBool False, error_text = JStr []\<rparr>) \<and>
   evaluate_submission
     (Inr \<lparr>status_code = 200, response_text = [], json_result = Inr (JDict [])\<rparr>)
     \<lparr>proof_token = JStr ''tok'', source_value = JInt 1, user_str = ''42'',
      submission_by = JStr ''42'', submission_date_iso = ''2024-01-15T10:30:00''\<rparr> (JDict []) =
     Return \<lparr>EvaluateSubmissionResponse.is_valid = JBool False, error_text = JStr [],
             quality = JFloat 0, uniqueness = JFloat 0, score = JFloat 0, details = None\<rparr> \<and>
   evaluate_submission
     (Inr \<lparr>status_code = 200, response_text = [],
           json_result = Inr (JDict [(''details'', JNull)])\<rparr>)
     \<lparr>proof_token = JStr ''tok'', source_value = JInt 1, user_str = ''42'',
      submission_by = JStr ''42'', submission_date_iso = ''2024-01-15T10:30:00''\<rparr> (JDict []) =
     Return \<lparr>EvaluateSubmissionResponse.is_valid = JBool False, error_text = JStr [],
             quality = JFloat 0, uniqueness = JFloat 0, score = JFloat 0, details = None\<rparr> \<and>
   get_submission_historical_data example_fromisoformat
     (Inr \<lparr>status_code = 200, response_text = [], json_result = Inr (JDict [])\<rparr>) =
     ([], Return \<lparr>SubmissionHistory.is_valid = JBool False, error_text = JStr [],
                  last_submission = None, chat_histories = []\<rparr>) \<and>
   evaluation_details (JDict []) =
     Inr \<lparr>total_messages = JInt 0, unique_messages = JInt 0, llm_reasoning = JNull,
          chat_summaries = []\<rparr> \<and>
   submission_chat example_fromisoformat
     (JDict [(''chatStartOn'', JStr ''2024-01-15T10:30:00Z''),
             (''chatEndedOn'', JStr ''2024-01-15T11:00:00.5+02:00'')]) =
     Inr \<lparr>participant_count = JInt 0, chat_count = JInt 0, chat_length = JInt 0,
          chat_start_on = ''2024-01-15T10:30:00+00:00'',
          chat_ended_on = ''2024-01-15T11:00:00.500000+02:00''\<rparr> \<and>
   submission_chat example_fromisoformat (JDict [(''participantCount'', JInt 2)]) = Inl KeyError \<and>
   submission_chat example_fromisoformat
     (JDict [(''chatStartOn'', JStr ''2024-01-15T10:30:00Z'')]) = Inl KeyError \<and>
   submission_chat example_fromisoformat
     (JDict [(''chatStartOn'', JStr ''not-a-date'')]) = Inl ValueError \<and>
   (\<forall>r. snd (get_submission_historical_data example_fromisoformat
     (Inr \<lparr>status_code = 200, response_text = [], json_result = Inr
       (JDict [(''isValid'', JBool True),
               (''chatHistories'', JList [JDict [(''sourceChatId'', JStr ''c1''),
                  (''chats'', JList [JDict [(''participantCount'', JInt 2),
                     (''chatStartOn'', JStr ''2024-01-15T10:30:00Z'')]])]])])\<rparr>)) \<noteq> Return r)"
proof -
  let ?r = "\<lparr>status_code = 200, response_text = [], json_result = Inr (JDict [])\<rparr>"
  let ?rn = "\<lparr>status_code = 200, response_text = [],
           json_result = Inr (JDict [(''details'', JNull)])\<rparr>"
  let ?sd = "\<lparr>proof_token = JStr ''tok'', source_value = JInt 1, user_str = ''42'',
      submission_by = JStr ''42'', submission_date_iso = ''2024-01-15T10:30:00''\<rparr>"
  let ?c = "[(''chatStartOn'', JStr ''2024-01-15T10:30:00Z''),
             (''chatEndedOn'', JStr ''2024-01-15T11:00:00.5+02:00'')]"
  let ?c1 = "[(''participantCount'', JInt 2)]"
  let ?c2 = "[(''chatStartOn'', JStr ''2024-01-15T10:30:00Z'')]"
  let ?c3 = "[(''chatStartOn'', JStr ''not-a-date'')]"
  let ?c4 = "[(''participantCount'', JInt 2), (''chatStartOn'', JStr ''2024-01-15T10:30:00Z'')]"
  let ?h4 = "[(''sourceChatId'', JStr ''c1''), (''chats'', JList [JDict ?c4])]"
  let ?k4 = "[(''isValid'', JBool True), (''chatHistories'', JList [JDict ?h4])]"
  let ?r4 = "\<lparr>status_code = 200, response_text = [], json_result = Inr (JDict ?k4)\<rparr>"
  note t = absent_fields_default
    [where kvs = "[]" and response = ?r and fromisoformat = example_fromisoformat
       and dkvs = "[]" and chs = "[]" and ls = None and ckvs = ?c
       and ?v1.0 = "JStr ''2024-01-15T10:30:00Z''" and ?d1.0 = "''2024-01-15T10:30:00+00:00''"
       and ?v2.0 = "JStr ''2024-01-15T11:00:00.5+02:00''"
       and ?d2.0 = "''2024-01-15T11:00:00.500000+02:00''"]
  note tn = absent_fields_default
    [where kvs = "[(''details'', JNull)]" and response = ?rn and dj = JNull]
  note u1 = absent_fields_default
    [where ckvs = ?c1 and fromisoformat = example_fromisoformat]
  note u2 = absent_fields_default
    [where ckvs = ?c2 and fromisoformat = example_fromisoformat
       and ?v1.0 = "JStr ''2024-01-15T10:30:00Z''" and ?d1.0 = "''2024-01-15T10:30:00+00:00''"]
  note u3 = absent_fields_default
    [where ckvs = ?c3 and fromisoformat = example_fromisoformat
       and ?v1.0 = "JStr ''not-a-date''" and ?err1.0 = ValueError]
  note u4 = absent_fields_default
    [where kvs = ?k4 and response = ?r4 and fromisoformat = example_fromisoformat
       and entries = "[JDict ?h4]" and hkvs = ?h4 and cjs = "[JDict ?c4]" and ckvs = ?c4]
  have hs: "status_code ?r = 200 \<and> json_result ?r = Inr (JDict [])" by simp
  have w1: "submit_data (Inr ?r) =
      ([], Return \<lparr>SubmitDataResponse.is_valid = JBool False, error_text = JStr []\<rparr>)"
    using t [THEN conjunct2, THEN conjunct1, THEN mp, OF hs] by (simp add: dict_get_def)
  have he: "evaluate_payload ?sd (JDict []) =
     Inr (JDict [(''ProofToken'', JStr ''tok''), (''DataSource'', JInt 1), (''SourceId'', JStr ''42''),
               (''SubmittedBy'', JStr ''42''), (''SubmittedOn'', JStr ''2024-01-15T10:30:00''),
               (''SubmissionToken'', JStr []), (''Chats'', JList [])]) \<and>
     status_code ?r = 200 \<and> json_result ?r = Inr (JDict []) \<and> map_of [] ''details'' = None"
    using example_payload by simp
  have w2: "evaluate_submission (Inr ?r) ?sd (JDict []) =
     Return \<lparr>EvaluateSubmissionResponse.is_valid = JBool False, error_text = JStr [],
             quality = JFloat 0, uniqueness = JFloat 0, score = JFloat 0, details = None\<rparr>"
    using t [THEN conjunct2, THEN conjunct2, THEN conjunct1, THEN mp, OF he] by (simp add: dict_get_def)
  have hn: "evaluate_payload ?sd (JDict []) =
     Inr (JDict [(''ProofToken'', JStr ''tok''), (''DataSource'', JInt 1), (''SourceId'', JStr ''42''),
               (''SubmittedBy'', JStr ''42''), (''SubmittedOn'', JStr ''2024-01-15T10:30:00''),
               (''SubmissionToken'', JStr []), (''Chats'', JList [])]) \<and>
     status_code ?rn = 200 \<and> json_result ?rn = Inr (JDict [(''details'', JNull)]) \<and>
     map_of [(''details'', JNull)] ''details'' = Some JNull \<and> \<not> truthy JNull"
    using example_payload by simp
  have w2n: "evaluate_submission (Inr ?rn) ?sd (JDict []) =
     Return \<lparr>EvaluateSubmissionResponse.is_valid = JBool False, error_text = JStr [],
             quality = JFloat 0, uniqueness = JFloat 0, score = JFloat 0, details = None\<rparr>"
    using tn [THEN conjunct2, THEN conjunct2, THEN conjunct2, THEN conjunct2, THEN conjunct1, THEN mp, OF hn] by (simp add: dict_get_def)
  have n1: "map_of [] ''chatHistories'' = (None :: json option)" by simp
  have n2: "map_of [] ''lastSubmission'' = (None :: json option)" by simp
  have "status_code ?r = 200 \<and> json_result ?r = Inr (JDict []) \<and>
      chat_histories_of example_fromisoformat (JDict []) = Inr [] \<and>
      last_submission_of example_fromisoformat (dict_get [] ''lastSubmission'' JNull) = Inr None"
    using t [THEN conjunct2, THEN conjunct2, THEN conjunct2, THEN conjunct2, THEN conjunct2, THEN conjunct2, THEN conjunct2, THEN conjunct2, THEN conjunct2, THEN conjunct2, THEN conjunct1, THEN mp, OF n1] t [THEN conjunct2, THEN conjunct2, THEN conjunct2, THEN conjunct2, THEN conjunct2, THEN conjunct2, THEN conjunct2, THEN conjunct2, THEN conjunct2, THEN conjunct1, THEN mp, OF n2] by simp
  from t [THEN conjunct2, THEN conjunct2, THEN conjunct2, THEN conjunct2, THEN conjunct2, THEN conjunct2, THEN conjunct2, THEN conjunct2, THEN conjunct1, THEN mp, OF this]
  have w3: "get_submission_historical_data example_fromisoformat (Inr ?r) =
     ([], Return \<lparr>SubmissionHistory.is_valid = JBool False, error_text = JStr [],
                  last_submission = None, chat_histories = []\<rparr>)"
    by (simp add: dict_get_def)
  have "map_of [] ''chatSummaries'' = (None :: json option)" by simp
  from t [THEN conjunct2, THEN conjunct2, THEN conjunct2, THEN conjunct2, THEN conjunct2, THEN conjunct1, THEN mp, OF this]
  have w4: "evaluation_details (JDict []) =
     Inr \<lparr>total_messages = JInt 0, unique_messages = JInt 0, llm_reasoning = JNull,
          chat_summaries = []\<rparr>"
    by (simp add: dict_get_def)
  have "map_of ?c ''chatStartOn'' = Some (JStr ''2024-01-15T10:30:00Z'') \<and>
      parse_iso_datetime example_fromisoformat (JStr ''2024-01-15T10:30:00Z'') =
        Inr ''2024-01-15T10:30:00+00:00'' \<and>
      map_of ?c ''chatEndedOn'' = Some (JStr ''2024-01-15T11:00:00.5+02:00'') \<and>
      parse_iso_datetime example_fromisoformat (JStr ''2024-01-15T11:00:00.5+02:00'') =
        Inr ''2024-01-15T11:00:00.500000+02:00''"
    using example_chat_timestamps by (simp del: parse_iso_datetime.simps)
  from t [THEN conjunct2, THEN conjunct2, THEN conjunct2, THEN conjunct2, THEN conjunct2, THEN conjunct2, THEN conjunct2, THEN conjunct2, THEN conjunct2, THEN conjunct2, THEN conjunct2, THEN conjunct2, THEN conjunct2, THEN conjunct1, THEN mp, OF this]
  have w5: "submission_chat example_fromisoformat (JDict ?c) =
     Inr \<lparr>participant_count = JInt 0, chat_count = JInt 0, chat_length = JInt 0,
          chat_start_on = ''2024-01-15T10:30:00+00:00'',
          chat_ended_on = ''2024-01-15T11:00:00.500000+02:00''\<rparr>"
    by (simp add: dict_get_def)
  have "map_of ?c1 ''chatStartOn'' = None" by simp
  from u1 [THEN conjunct2, THEN conjunct2, THEN conjunct2, THEN conjunct2, THEN conjunct2, THEN conjunct2, THEN conjunct2, THEN conjunct2, THEN conjunct2, THEN conjunct2, THEN conjunct2, THEN conjunct2, THEN conjunct2, THEN conjunct2, THEN conjunct2, THEN conjunct1, THEN mp, OF this]
  have w6: "submission_chat example_fromisoformat (JDict ?c1) = Inl KeyError" .
  have "map_of ?c2 ''chatStartOn'' = Some (JStr ''2024-01-15T10:30:00Z'') \<and>
      parse_iso_datetime example_fromisoformat (JStr ''2024-01-15T10:30:00Z'') =
        Inr ''2024-01-15T10:30:00+00:00'' \<and>
      map_of ?c2 ''chatEndedOn'' = None"
    using example_chat_timestamps(1) by (simp del: parse_iso_datetime.simps)
  from u2 [THEN conjunct2, THEN conjunct2, THEN conjunct2, THEN conjunct2, THEN conjunct2, THEN conjunct2, THEN conjunct2, THEN conjunct2, THEN conjunct2, THEN conjunct2, THEN conjunct2, THEN conjunct2, THEN conjunct2, THEN conjunct2, THEN conjunct2, THEN conjunct2, THEN conjunct1, THEN mp, OF this]
  have w7: "submission_chat example_fromisoformat (JDict ?c2) = Inl KeyError" .
  have "map_of ?c3 ''chatStartOn'' = Some (JStr ''not-a-date'') \<and>
      parse_iso_datetime example_fromisoformat (JStr ''not-a-date'') = Inl ValueError"
    using example_not_a_date by (simp del: parse_iso_datetime.simps)
  from u3 [THEN conjunct2, THEN conjunct2, THEN conjunct2, THEN conjunct2, THEN conjunct2, THEN conjunct2, THEN conjunct2, THEN conjunct2, THEN conjunct2, THEN conjunct2, THEN conjunct2, THEN conjunct2, THEN conjunct2, THEN conjunct2, THEN conjunct2, THEN conjunct2, THEN conjunct2, THEN conjunct1, THEN mp, OF this]
  have w8: "submission_chat example_fromisoformat (JDict ?c3) = Inl ValueError" .
  have "status_code ?r4 = 200 \<and> json_result ?r4 = Inr (JDict ?k4) \<and>
      map_of ?k4 ''chatHistories'' = Some (JList [JDict ?h4]) \<and> JDict ?h4 \<in> set [JDict ?h4] \<and>
      map_of ?h4 ''chats'' = Some (JList [JDict ?c4]) \<and> JDict ?c4 \<in> set [JDict ?c4] \<and>
      (map_of ?c4 ''chatStartOn'' = None \<or> map_of ?c4 ''chatEndedOn'' = None)"
    by simp
  from u4 [THEN conjunct2, THEN conjunct2, THEN conjunct2, THEN conjunct2, THEN conjunct2, THEN conjunct2, THEN conjunct2, THEN conjunct2, THEN conjunct2, THEN conjunct2, THEN conjunct2, THEN conjunct2, THEN conjunct2, THEN conjunct2, THEN conjunct2, THEN conjunct2, THEN conjunct2, THEN conjunct2, THEN mp, OF this]
  have w9: "\<forall>r. snd (get_submission_historical_data example_fromisoformat (Inr ?r4)) \<noteq> Return r" .
  from w1 w2 w2n w3 w4 w5 w6 w7 w8 w9 show ?thesis by (intro conjI)
qed

end
